theory Spec2Isabelle
  imports Complex_Main "HOL-Library.Word"
begin

section \<open>The front end of rnn-learn (src/rnn-learn/main.c)\<close>

text \<open>
  The program reads its options from the command line and from configuration files,
  reads the training data, validates the configuration and then hands it to
  \<open>training_main\<close>. This theory embeds that front end: the option setters, the option
  table, the configuration-file reader, \<open>check_parameters\<close> and \<open>main\<close>.

  The headers \<open>main.h\<close>, \<open>parameter.h\<close>, \<open>target.h\<close>, \<open>parse.h\<close>, \<open>utils.h\<close> and
  \<open>training.h\<close> are not part of the sources at hand. What main.c takes from them
  (default constants, the reader of target files, the parsers of connection strings) and
  from the C library (\<open>atoi\<close>, \<open>atol\<close>, \<open>atof\<close>, \<open>strtoul\<close>) is a parameter of the
  model, collected in the record \<open>externals\<close>; every theorem holds for all of them.
\<close>

subsection \<open>C values\<close>

text \<open>
  A C \<open>double\<close> is a finite number, an infinity or a NaN. main.c only stores doubles and
  compares them with the constant 0, so the finite values are kept as reals. Ordered
  comparisons involving a NaN are false.
\<close>

datatype c_double = Finite real | PInf | NInf | NaN

text \<open>\<open>x < 0\<close> and \<open>x <= 0\<close> on doubles.\<close>

fun lt_zero :: "c_double \<Rightarrow> bool" where
  "lt_zero (Finite r) = (r < 0)"
| "lt_zero PInf = False"
| "lt_zero NInf = True"
| "lt_zero NaN = False"

fun le_zero :: "c_double \<Rightarrow> bool" where
  "le_zero (Finite r) = (r \<le> 0)"
| "le_zero PInf = False"
| "le_zero NInf = True"
| "le_zero NaN = False"

text \<open>\<open>x > 0\<close> on doubles: the strictly positive values, \<open>+\<infinity>\<close> included.\<close>

fun gt_zero :: "c_double \<Rightarrow> bool" where
  "gt_zero (Finite r) = (0 < r)"
| "gt_zero PInf = True"
| "gt_zero NInf = False"
| "gt_zero NaN = False"

text \<open>
  \<open>int\<close> and \<open>long\<close> fields are only assigned and compared with 0 in main.c, never used
  in arithmetic, so they are mathematical integers here. The seed is an
  \<open>unsigned long\<close> that main.c computes with: a 64-bit word.
\<close>

type_synonym ulong = "64 word"

definition LONG_MAX :: int where
  "LONG_MAX = 9223372036854775807"

subsection \<open>The output streams\<close>

text \<open>
  \<open>struct io_parameters\<close> has one file name and one \<open>struct print_interval\<close> for each of
  the thirteen names that main.c passes to its macros
  \<open>SET_DEFAULT_VALUE_OF_PRINT_INTERVAL_I\<close>, \<open>GEN_PRINT_INTERVAL_SETTER\<close> and
  \<open>ENTRY_PRINT_INTERVAL_SETTER\<close>. The thirteen fields \<open>interval_for_<name>\<close> are modelled
  as one function from these names, and so are the thirteen fields \<open><name>name\<close>.
\<close>

datatype stream =
    State_file | Closed_state_file | Weight_file | Threshold_file | Tau_file
  | Init_file | Rep_init_file | Adapt_lr_file | Error_file | Closed_error_file
  | Lyapunov_file | Entropy_file | Period_file

definition all_streams :: "stream list" where
  "all_streams = [State_file, Closed_state_file, Weight_file, Threshold_file, Tau_file,
     Init_file, Rep_init_file, Adapt_lr_file, Error_file, Closed_error_file,
     Lyapunov_file, Entropy_file, Period_file]"

text \<open>The macro argument \<open>FILENAME\<close> as the preprocessor pastes and stringifies it.\<close>

fun stream_name :: "stream \<Rightarrow> string" where
  "stream_name State_file = ''state_file''"
| "stream_name Closed_state_file = ''closed_state_file''"
| "stream_name Weight_file = ''weight_file''"
| "stream_name Threshold_file = ''threshold_file''"
| "stream_name Tau_file = ''tau_file''"
| "stream_name Init_file = ''init_file''"
| "stream_name Rep_init_file = ''rep_init_file''"
| "stream_name Adapt_lr_file = ''adapt_lr_file''"
| "stream_name Error_file = ''error_file''"
| "stream_name Closed_error_file = ''closed_error_file''"
| "stream_name Lyapunov_file = ''lyapunov_file''"
| "stream_name Entropy_file = ''entropy_file''"
| "stream_name Period_file = ''period_file''"

subsection \<open>The configuration record\<close>

text \<open>\<open>struct print_interval\<close>; the field \<open>end\<close> is \<open>end_epoch\<close> here.\<close>

record print_interval =
  interval :: int
  init :: int
  end_epoch :: int
  use_logscale_interval :: int
  set_interval_flag :: int
  set_init_flag :: int
  set_end_flag :: int
  set_use_logscale_interval_flag :: int

record main_parameters =
  seed :: ulong
  epoch_size :: int
  use_adaptive_lr :: int
  rho :: c_double
  momentum :: c_double
  c_state_size :: int
  rep_init_size :: int
  delay_length :: int
  output_type :: int
  fixed_weight :: int
  fixed_threshold :: int
  fixed_tau :: int
  fixed_init_c_state :: int
  connection_i2c :: string
  connection_c2c :: string
  connection_c2o :: string
  connection_c2v :: string
  const_init_c :: string
  softmax_group :: string
  init_tau :: string
  prior_strength :: c_double
  rep_init_variance :: c_double
  lambda :: c_double
  alpha :: c_double

record analysis_parameters =
  truncate_length :: int
  block_length :: int
  divide_num :: int
  lyapunov_spectrum_size :: int
  threshold_period :: c_double

record io_parameters =
  stream_filename :: "stream \<Rightarrow> string"
  save_filename :: string
  load_filename :: string
  default_interval :: print_interval
  interval_for :: "stream \<Rightarrow> print_interval"
  verbose :: int

text \<open>
  Of \<open>gp->inp\<close> main.c writes \<open>adapt_lr\<close> and \<open>init_epoch\<close> itself; the arrays it
  allocates there are filled by the functions of parse.h and never read by main.c, so
  their contents are not represented.
\<close>

record internal_parameters =
  adapt_lr :: c_double
  init_epoch :: int

record general_parameters =
  mp :: main_parameters
  ap :: analysis_parameters
  iop :: io_parameters
  inp :: internal_parameters

text \<open>Of \<open>struct target_reader\<close> main.c reads \<open>num\<close> and \<open>dimension\<close>.\<close>

record target_reader =
  num :: int
  dimension :: int

subsection \<open>Messages and exits\<close>

text \<open>
  Every \<open>print_error_msg\<close> and \<open>fprintf(stderr, ...)\<close> of main.c is a constructor that
  carries the arguments of the format string; \<open>message_text\<close> gives the format string
  itself. The last constructor stands for whatever a parse.h function prints if it stops
  the program.
\<close>

datatype message =
    Seed_range | Rho_range | Momentum_range | C_state_size_range | Rep_init_size_range
  | Delay_length_range | Output_type_range | Prior_strength_range
  | Rep_init_variance_range | Lambda_range | Alpha_range | Truncate_length_range
  | Block_length_range | Divide_num_range | Training_data_empty
  | Cannot_open string
  | Requires_argument string nat
  | Unknown_option string nat
  | Try_help
  | Stdin_error
  | Target_error string
  | Parse_error string

fun message_text :: "message \<Rightarrow> string" where
  "message_text Seed_range =
     ''seed for random number generator not in valid range: x >= 1 (integer)''"
| "message_text Rho_range = ''learning rate not in valid range: x >= 0 (float)''"
| "message_text Momentum_range = ''learning momentum not in valid range: x >= 0 (float)''"
| "message_text C_state_size_range = ''number of context neurons must be greater than zero.''"
| "message_text Rep_init_size_range =
     ''number of representative points of initial state must be greater than zero.''"
| "message_text Delay_length_range =
     ''time delay in a self-feedback not in valid range: x > 0 (integer)''"
| "message_text Output_type_range =
     ''type of output function must be 0(tanh) or 1(softmax activation function)''"
| "message_text Prior_strength_range =
     ''effect of the normal prior distribution not in valid range: x >= 0 (float)''"
| "message_text Rep_init_variance_range =
     ''variance for representative points of initial state not in valid range: x >= 0 (float)''"
| "message_text Lambda_range = ''`lambda' not in valid range: x >= 0 (float)''"
| "message_text Alpha_range = ''`alpha' not in valid range: x >= 0 (float)''"
| "message_text Truncate_length_range =
     ''`truncate_length' not in valid range: x >= 0 (integer)''"
| "message_text Block_length_range = ''`block_length' not in valid range: x >= 0 (integer)''"
| "message_text Divide_num_range = ''`divide_num' not in valid range: x >= 1 (integer)''"
| "message_text Training_data_empty = ''training data is empty.''"
| "message_text (Cannot_open f) = ''cannot open %s''"
| "message_text (Requires_argument opt line) =
     ''warning: option `%s' requires an argument at line %d''"
| "message_text (Unknown_option opt line) = ''warning: unknown option `%s' at line %d''"
| "message_text Try_help = ''Try `rnn-learn -h' for more information.\<newline>''"
| "message_text Stdin_error = ''error in the standard input''"
| "message_text (Target_error f) = ''error in %s''"
| "message_text (Parse_error txt) = txt"

datatype exit_status = EXIT_SUCCESS | EXIT_FAILURE

text \<open>
  How a run ends before training: a call of \<open>exit\<close>, with the status and everything
  written to stderr up to then, or a setter reading a \<open>NULL\<close> argument.
\<close>

datatype stop = Exit exit_status "message list" | Null_argument "message list"

subsection \<open>What main.c takes from elsewhere\<close>

text \<open>
  The conversions of the C library, the constants of parameter.h (\<open>INIT_TAU\<close> is used
  stringified only), and the functions of target.h and parse.h. \<open>read_target_from_file\<close>
  gets the reader and the lines of the stream and returns \<open>None\<close> for the C function's
  \<open>-1\<close>; \<open>str_to_failure\<close> says whether one of the \<open>str_to_...\<close> functions called by
  \<open>setup_parameters\<close> stops the program, and with which text; it gets what these calls
  get: the seven strings, \<open>c_state_size\<close> and the dimension of the targets.
\<close>

record externals =
  atoi :: "string \<Rightarrow> int"
  atol :: "string \<Rightarrow> int"
  atof :: "string \<Rightarrow> c_double"
  strtoul :: "string \<Rightarrow> ulong"
  EPOCH_SIZE :: int
  RHO :: c_double
  MOMENTUM :: c_double
  C_STATE_SIZE :: int
  REP_INIT_SIZE :: int
  DELAY_LENGTH :: int
  OUTPUT_TYPE :: int
  INIT_TAU :: string
  PRIOR_STRENGTH :: c_double
  REP_INIT_VARIANCE :: c_double
  LAMBDA :: c_double
  ALPHA :: c_double
  TRUNCATE_LENGTH :: int
  BLOCK_LENGTH :: int
  DIVIDE_NUM :: int
  LYAPUNOV_SPECTRUM_SIZE :: int
  THRESHOLD_PERIOD :: c_double
  STREAM_FILENAME :: "stream \<Rightarrow> string"
  SAVE_FILENAME :: string
  LOAD_FILENAME :: string
  PRINT_INTERVAL :: int
  init_target_reader :: target_reader
  read_target_from_file :: "target_reader \<Rightarrow> string list \<Rightarrow> target_reader option"
  str_to_failure :: "string list \<Rightarrow> int \<Rightarrow> int \<Rightarrow> string option"

subsection \<open>init_parameters\<close>

text \<open>
  \<open>now\<close> is \<open>time(NULL)\<close> and \<open>pid\<close> is \<open>getpid()\<close> converted to \<open>long\<close>; their
  product is taken in 64 bits and read as \<open>unsigned long\<close>. The function assigns every
  field of \<open>mp\<close>, \<open>ap\<close> and \<open>iop\<close> and leaves \<open>inp\<close> as it finds it. The designated
  initialiser of \<open>default_interval\<close> zeroes the four flags.
\<close>

definition default_seed :: "ulong \<Rightarrow> ulong \<Rightarrow> ulong" where
  "default_seed now pid = ((now * pid) mod 4294967295) + 1"

definition initial_interval :: "externals \<Rightarrow> print_interval" where
  "initial_interval X =
     \<lparr> interval = PRINT_INTERVAL X, init = 0, end_epoch = LONG_MAX,
       use_logscale_interval = 0, set_interval_flag = 0, set_init_flag = 0,
       set_end_flag = 0, set_use_logscale_interval_flag = 0 \<rparr>"

definition init_parameters ::
  "externals \<Rightarrow> ulong \<Rightarrow> ulong \<Rightarrow> general_parameters \<Rightarrow> general_parameters" where
  "init_parameters X now pid gp = gp
     \<lparr> mp := \<lparr> seed = default_seed now pid,
              epoch_size = EPOCH_SIZE X,
              use_adaptive_lr = 0,
              rho = RHO X,
              momentum = MOMENTUM X,
              c_state_size = C_STATE_SIZE X,
              rep_init_size = REP_INIT_SIZE X,
              delay_length = DELAY_LENGTH X,
              output_type = OUTPUT_TYPE X,
              fixed_weight = 0,
              fixed_threshold = 0,
              fixed_tau = 0,
              fixed_init_c_state = 0,
              connection_i2c = ''-t-'',
              connection_c2c = ''-t-'',
              connection_c2o = ''-t-'',
              connection_c2v = ''-t-'',
              const_init_c = [],
              softmax_group = [],
              init_tau = INIT_TAU X,
              prior_strength = PRIOR_STRENGTH X,
              rep_init_variance = REP_INIT_VARIANCE X,
              lambda = LAMBDA X,
              alpha = ALPHA X \<rparr>,
       ap := \<lparr> truncate_length = TRUNCATE_LENGTH X,
              block_length = BLOCK_LENGTH X,
              divide_num = DIVIDE_NUM X,
              lyapunov_spectrum_size = LYAPUNOV_SPECTRUM_SIZE X,
              threshold_period = THRESHOLD_PERIOD X \<rparr>,
       iop := \<lparr> stream_filename = STREAM_FILENAME X,
               save_filename = SAVE_FILENAME X,
               load_filename = LOAD_FILENAME X,
               default_interval = initial_interval X,
               interval_for = (\<lambda>s. initial_interval X),
               verbose = 0 \<rparr> \<rparr>"

subsection \<open>check_parameters\<close>

text \<open>
  The checks in the order of the source; \<open>Some m\<close> is \<open>print_error_msg(m)\<close> followed by
  \<open>exit(EXIT_FAILURE)\<close>, \<open>None\<close> is the return to \<open>main\<close>. The seed is unsigned, so
  \<open>seed <= 0\<close> compares words.
\<close>

definition check_parameters :: "general_parameters \<Rightarrow> target_reader \<Rightarrow> message option" where
  "check_parameters gp t_reader =
    (if seed (mp gp) \<le> 0 then Some Seed_range
     else if lt_zero (rho (mp gp)) then Some Rho_range
     else if lt_zero (momentum (mp gp)) then Some Momentum_range
     else if c_state_size (mp gp) \<le> 0 then Some C_state_size_range
     else if rep_init_size (mp gp) \<le> 0 then Some Rep_init_size_range
     else if delay_length (mp gp) \<le> 0 then Some Delay_length_range
     else if output_type (mp gp) \<noteq> 0 \<and> output_type (mp gp) \<noteq> 1 then Some Output_type_range
     else if lt_zero (prior_strength (mp gp)) then Some Prior_strength_range
     else if le_zero (rep_init_variance (mp gp)) then Some Rep_init_variance_range
     else if lt_zero (lambda (mp gp)) then Some Lambda_range
     else if lt_zero (alpha (mp gp)) then Some Alpha_range
     else if truncate_length (ap gp) < 0 then Some Truncate_length_range
     else if block_length (ap gp) < 0 then Some Block_length_range
     else if divide_num (ap gp) \<le> 0 then Some Divide_num_range
     else if num t_reader = 0 \<and> length (load_filename (iop gp)) = 0
       then Some Training_data_empty
     else None)"

subsection \<open>The option setters\<close>

text \<open>
  Each \<open>set_...\<close> function of main.c. A setter that reads its argument takes the string;
  one that ignores it does not take it. \<open>salloc\<close> copies its argument; running out of
  memory is not modelled.
\<close>

definition set_seed :: "externals \<Rightarrow> string \<Rightarrow> general_parameters \<Rightarrow> general_parameters" where
  "set_seed X opt gp = gp\<lparr>mp := (mp gp)\<lparr>seed := strtoul X opt\<rparr>\<rparr>"

definition set_epoch_size :: "externals \<Rightarrow> string \<Rightarrow> general_parameters \<Rightarrow> general_parameters" where
  "set_epoch_size X opt gp = gp\<lparr>mp := (mp gp)\<lparr>epoch_size := atol X opt\<rparr>\<rparr>"

definition set_use_adaptive_lr :: "general_parameters \<Rightarrow> general_parameters" where
  "set_use_adaptive_lr gp = gp\<lparr>mp := (mp gp)\<lparr>use_adaptive_lr := 1\<rparr>\<rparr>"

definition set_rho :: "externals \<Rightarrow> string \<Rightarrow> general_parameters \<Rightarrow> general_parameters" where
  "set_rho X opt gp = gp\<lparr>mp := (mp gp)\<lparr>rho := atof X opt\<rparr>\<rparr>"

definition set_momentum :: "externals \<Rightarrow> string \<Rightarrow> general_parameters \<Rightarrow> general_parameters" where
  "set_momentum X opt gp = gp\<lparr>mp := (mp gp)\<lparr>momentum := atof X opt\<rparr>\<rparr>"

definition set_c_state_size :: "externals \<Rightarrow> string \<Rightarrow> general_parameters \<Rightarrow> general_parameters" where
  "set_c_state_size X opt gp = gp\<lparr>mp := (mp gp)\<lparr>c_state_size := atoi X opt\<rparr>\<rparr>"

definition set_rep_init_size :: "externals \<Rightarrow> string \<Rightarrow> general_parameters \<Rightarrow> general_parameters" where
  "set_rep_init_size X opt gp = gp\<lparr>mp := (mp gp)\<lparr>rep_init_size := atoi X opt\<rparr>\<rparr>"

definition set_delay_length :: "externals \<Rightarrow> string \<Rightarrow> general_parameters \<Rightarrow> general_parameters" where
  "set_delay_length X opt gp = gp\<lparr>mp := (mp gp)\<lparr>delay_length := atoi X opt\<rparr>\<rparr>"

definition set_output_type :: "externals \<Rightarrow> string \<Rightarrow> general_parameters \<Rightarrow> general_parameters" where
  "set_output_type X opt gp = gp\<lparr>mp := (mp gp)\<lparr>output_type := atoi X opt\<rparr>\<rparr>"

definition set_fixed_weight :: "general_parameters \<Rightarrow> general_parameters" where
  "set_fixed_weight gp = gp\<lparr>mp := (mp gp)\<lparr>fixed_weight := 1\<rparr>\<rparr>"

definition set_fixed_threshold :: "general_parameters \<Rightarrow> general_parameters" where
  "set_fixed_threshold gp = gp\<lparr>mp := (mp gp)\<lparr>fixed_threshold := 1\<rparr>\<rparr>"

definition set_fixed_tau :: "general_parameters \<Rightarrow> general_parameters" where
  "set_fixed_tau gp = gp\<lparr>mp := (mp gp)\<lparr>fixed_tau := 1\<rparr>\<rparr>"

definition set_fixed_init_c_state :: "general_parameters \<Rightarrow> general_parameters" where
  "set_fixed_init_c_state gp = gp\<lparr>mp := (mp gp)\<lparr>fixed_init_c_state := 1\<rparr>\<rparr>"

definition set_connection_i2c :: "string \<Rightarrow> general_parameters \<Rightarrow> general_parameters" where
  "set_connection_i2c opt gp = gp\<lparr>mp := (mp gp)\<lparr>connection_i2c := opt\<rparr>\<rparr>"

definition set_connection_c2c :: "string \<Rightarrow> general_parameters \<Rightarrow> general_parameters" where
  "set_connection_c2c opt gp = gp\<lparr>mp := (mp gp)\<lparr>connection_c2c := opt\<rparr>\<rparr>"

definition set_connection_c2o :: "string \<Rightarrow> general_parameters \<Rightarrow> general_parameters" where
  "set_connection_c2o opt gp = gp\<lparr>mp := (mp gp)\<lparr>connection_c2o := opt\<rparr>\<rparr>"

definition set_connection_c2v :: "string \<Rightarrow> general_parameters \<Rightarrow> general_parameters" where
  "set_connection_c2v opt gp = gp\<lparr>mp := (mp gp)\<lparr>connection_c2v := opt\<rparr>\<rparr>"

definition set_const_init_c :: "string \<Rightarrow> general_parameters \<Rightarrow> general_parameters" where
  "set_const_init_c opt gp = gp\<lparr>mp := (mp gp)\<lparr>const_init_c := opt\<rparr>\<rparr>"

definition set_softmax_group :: "string \<Rightarrow> general_parameters \<Rightarrow> general_parameters" where
  "set_softmax_group opt gp = gp\<lparr>mp := (mp gp)\<lparr>softmax_group := opt\<rparr>\<rparr>"

definition set_init_tau :: "string \<Rightarrow> general_parameters \<Rightarrow> general_parameters" where
  "set_init_tau opt gp = gp\<lparr>mp := (mp gp)\<lparr>init_tau := opt\<rparr>\<rparr>"

definition set_prior_strength :: "externals \<Rightarrow> string \<Rightarrow> general_parameters \<Rightarrow> general_parameters" where
  "set_prior_strength X opt gp = gp\<lparr>mp := (mp gp)\<lparr>prior_strength := atof X opt\<rparr>\<rparr>"

definition set_rep_init_variance :: "externals \<Rightarrow> string \<Rightarrow> general_parameters \<Rightarrow> general_parameters" where
  "set_rep_init_variance X opt gp = gp\<lparr>mp := (mp gp)\<lparr>rep_init_variance := atof X opt\<rparr>\<rparr>"

definition set_lambda :: "externals \<Rightarrow> string \<Rightarrow> general_parameters \<Rightarrow> general_parameters" where
  "set_lambda X opt gp = gp\<lparr>mp := (mp gp)\<lparr>lambda := atof X opt\<rparr>\<rparr>"

definition set_alpha :: "externals \<Rightarrow> string \<Rightarrow> general_parameters \<Rightarrow> general_parameters" where
  "set_alpha X opt gp = gp\<lparr>mp := (mp gp)\<lparr>alpha := atof X opt\<rparr>\<rparr>"

definition set_truncate_length :: "externals \<Rightarrow> string \<Rightarrow> general_parameters \<Rightarrow> general_parameters" where
  "set_truncate_length X opt gp = gp\<lparr>ap := (ap gp)\<lparr>truncate_length := atoi X opt\<rparr>\<rparr>"

definition set_block_length :: "externals \<Rightarrow> string \<Rightarrow> general_parameters \<Rightarrow> general_parameters" where
  "set_block_length X opt gp = gp\<lparr>ap := (ap gp)\<lparr>block_length := atoi X opt\<rparr>\<rparr>"

definition set_divide_num :: "externals \<Rightarrow> string \<Rightarrow> general_parameters \<Rightarrow> general_parameters" where
  "set_divide_num X opt gp = gp\<lparr>ap := (ap gp)\<lparr>divide_num := atoi X opt\<rparr>\<rparr>"

definition set_lyapunov_spectrum_size :: "externals \<Rightarrow> string \<Rightarrow> general_parameters \<Rightarrow> general_parameters" where
  "set_lyapunov_spectrum_size X opt gp = gp\<lparr>ap := (ap gp)\<lparr>lyapunov_spectrum_size := atoi X opt\<rparr>\<rparr>"

definition set_threshold_period :: "externals \<Rightarrow> string \<Rightarrow> general_parameters \<Rightarrow> general_parameters" where
  "set_threshold_period X opt gp = gp\<lparr>ap := (ap gp)\<lparr>threshold_period := atof X opt\<rparr>\<rparr>"

text \<open>
  \<open>set_state_file\<close>, ..., \<open>set_period_file\<close>: thirteen functions of the same shape, one
  for each stream.
\<close>

definition set_stream_file :: "stream \<Rightarrow> string \<Rightarrow> general_parameters \<Rightarrow> general_parameters" where
  "set_stream_file s opt gp = gp\<lparr>iop := (iop gp)\<lparr>stream_filename := (stream_filename (iop gp))(s := opt)\<rparr>\<rparr>"

definition set_save_file :: "string \<Rightarrow> general_parameters \<Rightarrow> general_parameters" where
  "set_save_file opt gp = gp\<lparr>iop := (iop gp)\<lparr>save_filename := opt\<rparr>\<rparr>"

definition set_load_file :: "string \<Rightarrow> general_parameters \<Rightarrow> general_parameters" where
  "set_load_file opt gp = gp\<lparr>iop := (iop gp)\<lparr>load_filename := opt\<rparr>\<rparr>"

text \<open>
  \<open>SET_DEFAULT_VALUE_OF_PRINT_INTERVAL(OPT)\<close>: every stream whose \<open>_set_OPT_flag\<close> is
  zero takes \<open>OPT\<close> from \<open>default_interval\<close>. The thirteen statements of the macro
  touch thirteen different fields, so they are one update of the function.
\<close>

definition set_default_value_of_interval :: "io_parameters \<Rightarrow> io_parameters" where
  "set_default_value_of_interval io = io\<lparr>interval_for := (\<lambda>s. if set_interval_flag (interval_for io s) = 0
       then (interval_for io s)\<lparr>interval := interval (default_interval io)\<rparr>
       else interval_for io s)\<rparr>"

definition set_default_value_of_init :: "io_parameters \<Rightarrow> io_parameters" where
  "set_default_value_of_init io = io\<lparr>interval_for := (\<lambda>s. if set_init_flag (interval_for io s) = 0
       then (interval_for io s)\<lparr>init := init (default_interval io)\<rparr>
       else interval_for io s)\<rparr>"

definition set_default_value_of_end :: "io_parameters \<Rightarrow> io_parameters" where
  "set_default_value_of_end io = io\<lparr>interval_for := (\<lambda>s. if set_end_flag (interval_for io s) = 0
       then (interval_for io s)\<lparr>end_epoch := end_epoch (default_interval io)\<rparr>
       else interval_for io s)\<rparr>"

definition set_default_value_of_use_logscale_interval :: "io_parameters \<Rightarrow> io_parameters" where
  "set_default_value_of_use_logscale_interval io = io\<lparr>interval_for := (\<lambda>s. if set_use_logscale_interval_flag (interval_for io s) = 0
       then (interval_for io s)\<lparr>use_logscale_interval := use_logscale_interval (default_interval io)\<rparr>
       else interval_for io s)\<rparr>"

definition set_print_interval :: "externals \<Rightarrow> string \<Rightarrow> general_parameters \<Rightarrow> general_parameters" where
  "set_print_interval X opt gp = gp\<lparr>iop := set_default_value_of_interval
       ((iop gp)\<lparr>default_interval := (default_interval (iop gp))\<lparr>interval := atol X opt\<rparr>\<rparr>)\<rparr>"

definition set_print_init :: "externals \<Rightarrow> string \<Rightarrow> general_parameters \<Rightarrow> general_parameters" where
  "set_print_init X opt gp = gp\<lparr>iop := set_default_value_of_init
       ((iop gp)\<lparr>default_interval := (default_interval (iop gp))\<lparr>init := atol X opt\<rparr>\<rparr>)\<rparr>"

definition set_print_end :: "externals \<Rightarrow> string \<Rightarrow> general_parameters \<Rightarrow> general_parameters" where
  "set_print_end X opt gp = gp\<lparr>iop := set_default_value_of_end
       ((iop gp)\<lparr>default_interval := (default_interval (iop gp))\<lparr>end_epoch := atol X opt\<rparr>\<rparr>)\<rparr>"

definition set_use_logscale_interval :: "general_parameters \<Rightarrow> general_parameters" where
  "set_use_logscale_interval gp = gp\<lparr>iop := set_default_value_of_use_logscale_interval
       ((iop gp)\<lparr>default_interval := (default_interval (iop gp))\<lparr>use_logscale_interval := 1\<rparr>\<rparr>)\<rparr>"

text \<open>
  \<open>GEN_PRINT_INTERVAL_SETTER(FILENAME)\<close>: the four setters of one stream store the value
  and raise the flag of the field.
\<close>

definition set_print_interval_for :: "externals \<Rightarrow> stream \<Rightarrow> string \<Rightarrow> general_parameters \<Rightarrow> general_parameters" where
  "set_print_interval_for X s opt gp = gp\<lparr>iop := (iop gp)\<lparr>interval_for := (interval_for (iop gp))
       (s := (interval_for (iop gp) s)\<lparr>interval := atol X opt, set_interval_flag := 1\<rparr>)\<rparr>\<rparr>"

definition set_print_init_for :: "externals \<Rightarrow> stream \<Rightarrow> string \<Rightarrow> general_parameters \<Rightarrow> general_parameters" where
  "set_print_init_for X s opt gp = gp\<lparr>iop := (iop gp)\<lparr>interval_for := (interval_for (iop gp))
       (s := (interval_for (iop gp) s)\<lparr>init := atol X opt, set_init_flag := 1\<rparr>)\<rparr>\<rparr>"

definition set_print_end_for :: "externals \<Rightarrow> stream \<Rightarrow> string \<Rightarrow> general_parameters \<Rightarrow> general_parameters" where
  "set_print_end_for X s opt gp = gp\<lparr>iop := (iop gp)\<lparr>interval_for := (interval_for (iop gp))
       (s := (interval_for (iop gp) s)\<lparr>end_epoch := atol X opt, set_end_flag := 1\<rparr>)\<rparr>\<rparr>"

definition set_use_logscale_interval_for :: "stream \<Rightarrow> general_parameters \<Rightarrow> general_parameters" where
  "set_use_logscale_interval_for s gp = gp\<lparr>iop := (iop gp)\<lparr>interval_for := (interval_for (iop gp))
       (s := (interval_for (iop gp) s)\<lparr>use_logscale_interval := 1, set_use_logscale_interval_flag := 1\<rparr>)\<rparr>\<rparr>"

definition set_verbose :: "general_parameters \<Rightarrow> general_parameters" where
  "set_verbose gp = gp\<lparr>iop := (iop gp)\<lparr>verbose := 1\<rparr>\<rparr>"

subsection \<open>The option table\<close>

text \<open>
  \<open>opt_info\<close> holds function pointers; here it holds the name of the function, and
  \<open>call_setter\<close> is the call through the pointer. The argument of the call may be
  \<open>NULL\<close> (\<open>None\<close>); a setter that reads a \<open>NULL\<close> argument does not return, which is
  the result \<open>None\<close>. The setters above assign fields of \<open>gp\<close>; \<open>set_config_file\<close>
  reads a file, so its row has a handler of its own and \<open>read_config_file\<close> makes the
  call, below.
\<close>

datatype setter =
    Set_seed
  | Set_epoch_size
  | Set_use_adaptive_lr
  | Set_rho
  | Set_momentum
  | Set_c_state_size
  | Set_rep_init_size
  | Set_delay_length
  | Set_output_type
  | Set_fixed_weight
  | Set_fixed_threshold
  | Set_fixed_tau
  | Set_fixed_init_c_state
  | Set_connection_i2c
  | Set_connection_c2c
  | Set_connection_c2o
  | Set_connection_c2v
  | Set_const_init_c
  | Set_softmax_group
  | Set_init_tau
  | Set_prior_strength
  | Set_rep_init_variance
  | Set_lambda
  | Set_alpha
  | Set_truncate_length
  | Set_block_length
  | Set_divide_num
  | Set_lyapunov_spectrum_size
  | Set_threshold_period
  | Set_stream_file stream
  | Set_save_file
  | Set_load_file
  | Set_print_interval
  | Set_print_init
  | Set_print_end
  | Set_use_logscale_interval
  | Set_print_interval_for stream
  | Set_print_init_for stream
  | Set_print_end_for stream
  | Set_use_logscale_interval_for stream
  | Set_verbose

datatype handler = Field_setter setter | Config_file_setter

fun call_setter ::
  "externals \<Rightarrow> setter \<Rightarrow> string option \<Rightarrow> general_parameters \<Rightarrow> general_parameters option" where
  "call_setter X Set_seed arg gp = map_option (\<lambda>opt. set_seed X opt gp) arg"
| "call_setter X Set_epoch_size arg gp = map_option (\<lambda>opt. set_epoch_size X opt gp) arg"
| "call_setter X Set_use_adaptive_lr arg gp = Some (set_use_adaptive_lr gp)"
| "call_setter X Set_rho arg gp = map_option (\<lambda>opt. set_rho X opt gp) arg"
| "call_setter X Set_momentum arg gp = map_option (\<lambda>opt. set_momentum X opt gp) arg"
| "call_setter X Set_c_state_size arg gp = map_option (\<lambda>opt. set_c_state_size X opt gp) arg"
| "call_setter X Set_rep_init_size arg gp = map_option (\<lambda>opt. set_rep_init_size X opt gp) arg"
| "call_setter X Set_delay_length arg gp = map_option (\<lambda>opt. set_delay_length X opt gp) arg"
| "call_setter X Set_output_type arg gp = map_option (\<lambda>opt. set_output_type X opt gp) arg"
| "call_setter X Set_fixed_weight arg gp = Some (set_fixed_weight gp)"
| "call_setter X Set_fixed_threshold arg gp = Some (set_fixed_threshold gp)"
| "call_setter X Set_fixed_tau arg gp = Some (set_fixed_tau gp)"
| "call_setter X Set_fixed_init_c_state arg gp = Some (set_fixed_init_c_state gp)"
| "call_setter X Set_connection_i2c arg gp = map_option (\<lambda>opt. set_connection_i2c opt gp) arg"
| "call_setter X Set_connection_c2c arg gp = map_option (\<lambda>opt. set_connection_c2c opt gp) arg"
| "call_setter X Set_connection_c2o arg gp = map_option (\<lambda>opt. set_connection_c2o opt gp) arg"
| "call_setter X Set_connection_c2v arg gp = map_option (\<lambda>opt. set_connection_c2v opt gp) arg"
| "call_setter X Set_const_init_c arg gp = map_option (\<lambda>opt. set_const_init_c opt gp) arg"
| "call_setter X Set_softmax_group arg gp = map_option (\<lambda>opt. set_softmax_group opt gp) arg"
| "call_setter X Set_init_tau arg gp = map_option (\<lambda>opt. set_init_tau opt gp) arg"
| "call_setter X Set_prior_strength arg gp = map_option (\<lambda>opt. set_prior_strength X opt gp) arg"
| "call_setter X Set_rep_init_variance arg gp = map_option (\<lambda>opt. set_rep_init_variance X opt gp) arg"
| "call_setter X Set_lambda arg gp = map_option (\<lambda>opt. set_lambda X opt gp) arg"
| "call_setter X Set_alpha arg gp = map_option (\<lambda>opt. set_alpha X opt gp) arg"
| "call_setter X Set_truncate_length arg gp = map_option (\<lambda>opt. set_truncate_length X opt gp) arg"
| "call_setter X Set_block_length arg gp = map_option (\<lambda>opt. set_block_length X opt gp) arg"
| "call_setter X Set_divide_num arg gp = map_option (\<lambda>opt. set_divide_num X opt gp) arg"
| "call_setter X Set_lyapunov_spectrum_size arg gp = map_option (\<lambda>opt. set_lyapunov_spectrum_size X opt gp) arg"
| "call_setter X Set_threshold_period arg gp = map_option (\<lambda>opt. set_threshold_period X opt gp) arg"
| "call_setter X (Set_stream_file s) arg gp = map_option (\<lambda>opt. set_stream_file s opt gp) arg"
| "call_setter X Set_save_file arg gp = map_option (\<lambda>opt. set_save_file opt gp) arg"
| "call_setter X Set_load_file arg gp = map_option (\<lambda>opt. set_load_file opt gp) arg"
| "call_setter X Set_print_interval arg gp = map_option (\<lambda>opt. set_print_interval X opt gp) arg"
| "call_setter X Set_print_init arg gp = map_option (\<lambda>opt. set_print_init X opt gp) arg"
| "call_setter X Set_print_end arg gp = map_option (\<lambda>opt. set_print_end X opt gp) arg"
| "call_setter X Set_use_logscale_interval arg gp = Some (set_use_logscale_interval gp)"
| "call_setter X (Set_print_interval_for s) arg gp =
     map_option (\<lambda>opt. set_print_interval_for X s opt gp) arg"
| "call_setter X (Set_print_init_for s) arg gp =
     map_option (\<lambda>opt. set_print_init_for X s opt gp) arg"
| "call_setter X (Set_print_end_for s) arg gp =
     map_option (\<lambda>opt. set_print_end_for X s opt gp) arg"
| "call_setter X (Set_use_logscale_interval_for s) arg gp =
     Some (set_use_logscale_interval_for s gp)"
| "call_setter X Set_verbose arg gp = Some (set_verbose gp)"

text \<open>
  The rows of \<open>opt_info\<close> in the order of the source: name, \<open>has_arg\<close>, setter. The
  terminating row \<open>{0, 0, NULL}\<close> is the end of the list.
\<close>

type_synonym option_information = "string \<times> bool \<times> handler"

definition entry_print_interval_setter :: "stream \<Rightarrow> option_information list" where
  "entry_print_interval_setter s =
     [(''print_interval_for_'' @ stream_name s, True, Field_setter (Set_print_interval_for s)),
      (''print_init_for_'' @ stream_name s, True, Field_setter (Set_print_init_for s)),
      (''print_end_for_'' @ stream_name s, True, Field_setter (Set_print_end_for s)),
      (''use_logscale_interval_for_'' @ stream_name s, False, Field_setter (Set_use_logscale_interval_for s))]"

definition opt_info :: "option_information list" where
  "opt_info =
     [(''seed'', True, Field_setter Set_seed),
      (''epoch_size'', True, Field_setter Set_epoch_size),
      (''use_adaptive_lr'', False, Field_setter Set_use_adaptive_lr),
      (''rho'', True, Field_setter Set_rho),
      (''momentum'', True, Field_setter Set_momentum),
      (''c_state_size'', True, Field_setter Set_c_state_size),
      (''rep_init_size'', True, Field_setter Set_rep_init_size),
      (''delay_length'', True, Field_setter Set_delay_length),
      (''output_type'', True, Field_setter Set_output_type),
      (''fixed_weight'', False, Field_setter Set_fixed_weight),
      (''fixed_threshold'', False, Field_setter Set_fixed_threshold),
      (''fixed_tau'', False, Field_setter Set_fixed_tau),
      (''fixed_init_c_state'', False, Field_setter Set_fixed_init_c_state),
      (''connection_i2c'', True, Field_setter Set_connection_i2c),
      (''connection_c2c'', True, Field_setter Set_connection_c2c),
      (''connection_c2o'', True, Field_setter Set_connection_c2o),
      (''connection_c2v'', True, Field_setter Set_connection_c2v),
      (''const_init_c'', True, Field_setter Set_const_init_c),
      (''softmax_group'', True, Field_setter Set_softmax_group),
      (''init_tau'', True, Field_setter Set_init_tau),
      (''prior_strength'', True, Field_setter Set_prior_strength),
      (''rep_init_variance'', True, Field_setter Set_rep_init_variance),
      (''lambda'', True, Field_setter Set_lambda),
      (''alpha'', True, Field_setter Set_alpha),
      (''truncate_length'', True, Field_setter Set_truncate_length),
      (''block_length'', True, Field_setter Set_block_length),
      (''divide_num'', True, Field_setter Set_divide_num),
      (''lyapunov_spectrum_size'', True, Field_setter Set_lyapunov_spectrum_size),
      (''threshold_period'', True, Field_setter Set_threshold_period)]
     @ map (\<lambda>s. (stream_name s, True, Field_setter (Set_stream_file s))) all_streams
     @ [(''save_file'', True, Field_setter Set_save_file),
        (''load_file'', True, Field_setter Set_load_file),
        (''print_interval'', True, Field_setter Set_print_interval),
        (''print_init'', True, Field_setter Set_print_init),
        (''print_end'', True, Field_setter Set_print_end),
        (''use_logscale_interval'', False, Field_setter Set_use_logscale_interval)]
     @ concat (map entry_print_interval_setter all_streams)
     @ [(''verbose'', False, Field_setter Set_verbose),
        (''config_file'', True, Config_file_setter)]"

text \<open>
  The search loop of \<open>read_config_file\<close>: the first row whose name equals \<open>opt\<close>, or
  \<open>None\<close> when the loop reaches the terminating row.
\<close>

fun find_option :: "string \<Rightarrow> option_information list \<Rightarrow> (bool \<times> handler) option" where
  "find_option opt [] = None"
| "find_option opt ((name, has_arg, h) # rows) =
     (if opt = name then Some (has_arg, h) else find_option opt rows)"

subsection \<open>Reading a configuration file\<close>

text \<open>
  \<open>strip\<close> skips the leading characters equal to \<open>c\<close> and then overwrites the trailing
  ones with the terminator; after the first step the string is empty or starts with
  another character, so the backward loop stops before the start of the string.
\<close>

fun strip :: "string option \<Rightarrow> char \<Rightarrow> string option" where
  "strip None c = None"
| "strip (Some str) c =
     Some (rev (dropWhile (\<lambda>x. x = c) (rev (dropWhile (\<lambda>x. x = c) str))))"

text \<open>
  The buffer that \<open>getline\<close> fills may hold NUL bytes; \<open>strpbrk\<close>, \<open>strlen\<close>,
  \<open>strchr\<close> and \<open>strcmp\<close> see it as the C string that ends at the first of them.
\<close>

definition c_string :: "string \<Rightarrow> string" where
  "c_string buffer = takeWhile (\<lambda>x. x \<noteq> CHR 0x00) buffer"

text \<open>
  \<open>parse_option_and_arg\<close> cuts the line at the first \<open>#\<close> or newline; what is left, if
  not empty, is split at the first \<open>=\<close>. The result is the pair \<open>(*opt, *arg)\<close>.
\<close>

definition parse_option_and_arg :: "string \<Rightarrow> string option \<times> string option" where
  "parse_option_and_arg line_text =
     (let str = takeWhile (\<lambda>x. x \<noteq> CHR ''#'' \<and> x \<noteq> CHR 0x0A) (c_string line_text) in
      if length str > 0 then
        (if CHR ''='' \<in> set str
         then (strip (Some (takeWhile (\<lambda>x. x \<noteq> CHR ''='') str)) CHR '' '',
               strip (Some (tl (dropWhile (\<lambda>x. x \<noteq> CHR ''='') str))) CHR '' '')
         else (strip (Some str) CHR '' '', strip None CHR '' ''))
      else (None, None))"

text \<open>
  What a run is given: the clock and the process id, the contents of the uninitialised
  \<open>gp\<close> of \<open>main\<close>, the sequence of \<open>(getopt result, optarg)\<close> pairs that \<open>getopt\<close>
  returns for \<open>argv\<close>, the operands \<open>argv[optind..]\<close>, the files by name (each a list
  of lines as \<open>getline\<close> returns them), the number of streams the process may hold open at
  a time, and the lines of the standard input. The strings of \<open>argv\<close> are C strings:
  option arguments, operands and file names hold no NUL byte.
\<close>

type_synonym file_system = "string \<Rightarrow> string list option"

record input =
  now :: ulong
  pid :: ulong
  stack_gp :: general_parameters
  getopt_results :: "(char \<times> string) list"
  operands :: "string list"
  files :: file_system
  max_open :: nat
  stdin :: "string list"

text \<open>\<open>fopen(name, "r")\<close> with \<open>n\<close> streams still available; \<open>None\<close> is \<open>NULL\<close>.\<close>

definition fopen :: "file_system \<Rightarrow> nat \<Rightarrow> string \<Rightarrow> string list option" where
  "fopen F n name = (if n = 0 then None else F name)"

text \<open>
  \<open>read_config_file\<close> on the lines not yet read, with \<open>line\<close> the number of lines read
  so far. The row \<open>config_file\<close> calls \<open>set_config_file\<close>, which opens the named file
  and reads it with one stream fewer available, the outer file being still open.
\<close>

function read_config_file ::
  "externals \<Rightarrow> file_system \<Rightarrow> nat \<Rightarrow> string list \<Rightarrow> nat \<Rightarrow> general_parameters \<Rightarrow> message list
     \<Rightarrow> stop + general_parameters \<times> message list" where
  "read_config_file X F n [] line gp err = Inr (gp, err)"
| "read_config_file X F n (str # rest) line gp err =
     (case parse_option_and_arg str of
        (None, arg) \<Rightarrow> read_config_file X F n rest (line + 1) gp err
      | (Some opt, arg) \<Rightarrow>
          if length opt > 0 then
            (case find_option opt opt_info of
               None \<Rightarrow>
                 read_config_file X F n rest (line + 1) gp
                   (err @ [Unknown_option opt (line + 1)])
             | Some (has_arg, h) \<Rightarrow>
                 if has_arg \<and> arg = None then
                   read_config_file X F n rest (line + 1) gp
                     (err @ [Requires_argument opt (line + 1)])
                 else
                   (case h of
                      Config_file_setter \<Rightarrow>
                        (case arg of
                           None \<Rightarrow> Inl (Null_argument err)
                         | Some name \<Rightarrow>
                             (case fopen F n name of
                                None \<Rightarrow> Inl (Exit EXIT_FAILURE (err @ [Cannot_open name]))
                              | Some lines \<Rightarrow>
                                  (case read_config_file X F (n - 1) lines 0 gp err of
                                     Inl e \<Rightarrow> Inl e
                                   | Inr (gp', err') \<Rightarrow>
                                       read_config_file X F n rest (line + 1) gp' err')))
                    | Field_setter setter \<Rightarrow>
                        (case call_setter X setter arg gp of
                           None \<Rightarrow> Inl (Null_argument err)
                         | Some gp' \<Rightarrow> read_config_file X F n rest (line + 1) gp' err)))
          else read_config_file X F n rest (line + 1) gp err)"
  by pat_completeness auto
termination
  by (relation "measures [\<lambda>(X, F, n, lines, line, gp, err). n,
                           \<lambda>(X, F, n, lines, line, gp, err). length lines]")
     (auto simp: fopen_def split: if_splits)

definition set_config_file ::
  "externals \<Rightarrow> file_system \<Rightarrow> nat \<Rightarrow> string \<Rightarrow> general_parameters \<Rightarrow> message list
     \<Rightarrow> stop + general_parameters \<times> message list" where
  "set_config_file X F n opt gp err =
     (case fopen F n opt of
        None \<Rightarrow> Inl (Exit EXIT_FAILURE (err @ [Cannot_open opt]))
      | Some lines \<Rightarrow> read_config_file X F (n - 1) lines 0 gp err)"

subsection \<open>Reading the command line\<close>

text \<open>
  The \<open>getopt\<close> loop of \<open>read_options\<close>, with \<open>n\<close> the number of streams the process
  may open. \<open>-v\<close> and \<open>-h\<close> write to stdout, which is not
  recorded; every other result of \<open>getopt\<close>, the \<open>f\<close> of the option string included,
  falls to the \<open>default\<close> label.
\<close>

fun read_options ::
  "externals \<Rightarrow> file_system \<Rightarrow> nat \<Rightarrow> (char \<times> string) list \<Rightarrow> general_parameters \<Rightarrow> message list
     \<Rightarrow> stop + general_parameters \<times> message list" where
  "read_options X F n [] gp err = Inr (gp, err)"
| "read_options X F n ((opt, optarg) # rest) gp err =
     (if opt = CHR ''s'' then read_options X F n rest (set_seed X optarg gp) err
      else if opt = CHR ''n'' then read_options X F n rest (set_c_state_size X optarg gp) err
      else if opt = CHR ''r'' then read_options X F n rest (set_rep_init_size X optarg gp) err
      else if opt = CHR ''t'' then read_options X F n rest (set_init_tau optarg gp) err
      else if opt = CHR ''d'' then read_options X F n rest (set_delay_length X optarg gp) err
      else if opt = CHR ''k'' then read_options X F n rest (set_output_type X optarg gp) err
      else if opt = CHR ''e'' then read_options X F n rest (set_epoch_size X optarg gp) err
      else if opt = CHR ''l'' then read_options X F n rest (set_print_interval X optarg gp) err
      else if opt = CHR ''x'' then read_options X F n rest (set_rho X optarg gp) err
      else if opt = CHR ''m'' then read_options X F n rest (set_momentum X optarg gp) err
      else if opt = CHR ''a'' then read_options X F n rest (set_use_adaptive_lr gp) err
      else if opt = CHR ''p'' then read_options X F n rest (set_prior_strength X optarg gp) err
      else if opt = CHR ''i'' then read_options X F n rest (set_load_file optarg gp) err
      else if opt = CHR ''o'' then read_options X F n rest (set_save_file optarg gp) err
      else if opt = CHR ''c'' then
        (case set_config_file X F n optarg gp err of
           Inl e \<Rightarrow> Inl e
         | Inr (gp', err') \<Rightarrow> read_options X F n rest gp' err')
      else if opt = CHR ''V'' then read_options X F n rest (set_verbose gp) err
      else if opt = CHR ''v'' then Inl (Exit EXIT_SUCCESS err)
      else if opt = CHR ''h'' then Inl (Exit EXIT_SUCCESS err)
      else Inl (Exit EXIT_SUCCESS (err @ [Try_help])))"

subsection \<open>Reading the training data and preparing the run\<close>

text \<open>The loop of \<open>setup_target\<close> over the operands.\<close>

fun read_target_files ::
  "externals \<Rightarrow> input \<Rightarrow> string list \<Rightarrow> target_reader \<Rightarrow> message list \<Rightarrow> stop + target_reader" where
  "read_target_files X I [] t_reader err = Inr t_reader"
| "read_target_files X I (name # rest) t_reader err =
     (case fopen (files I) (max_open I) name of
        None \<Rightarrow> Inl (Exit EXIT_FAILURE (err @ [Cannot_open name]))
      | Some lines \<Rightarrow>
          (case read_target_from_file X t_reader lines of
             None \<Rightarrow> Inl (Exit EXIT_FAILURE (err @ [Target_error name]))
           | Some t_reader' \<Rightarrow> read_target_files X I rest t_reader' err))"

definition setup_target ::
  "externals \<Rightarrow> input \<Rightarrow> general_parameters \<Rightarrow> message list \<Rightarrow> stop + target_reader" where
  "setup_target X I gp err =
     (if operands I = [] \<and> length (load_filename (iop gp)) = 0 then
        (case read_target_from_file X (init_target_reader X) (stdin I) of
           None \<Rightarrow> Inl (Exit EXIT_FAILURE (err @ [Stdin_error]))
         | Some t_reader \<Rightarrow> Inr t_reader)
      else read_target_files X I (operands I) (init_target_reader X) err)"

text \<open>
  \<open>setup_parameters\<close>: the two assignments, and the block that allocates the arrays and
  calls the \<open>str_to_...\<close> functions of parse.h. Allocation failure is not modelled.
\<close>

definition setup_parameters ::
  "externals \<Rightarrow> general_parameters \<Rightarrow> target_reader \<Rightarrow> message list \<Rightarrow> stop + general_parameters" where
  "setup_parameters X gp t_reader err =
     (let gp' = gp\<lparr>inp := (inp gp)\<lparr>adapt_lr := Finite 1, init_epoch := 0\<rparr>\<rparr> in
      if length (load_filename (iop gp')) = 0 \<and> num t_reader \<noteq> 0 then
        (case str_to_failure X
                [connection_i2c (mp gp'), connection_c2c (mp gp'), connection_c2o (mp gp'),
                 connection_c2v (mp gp'), softmax_group (mp gp'), const_init_c (mp gp'),
                 init_tau (mp gp')]
                (c_state_size (mp gp')) (dimension t_reader) of
           Some txt \<Rightarrow> Inl (Exit EXIT_FAILURE (err @ [Parse_error txt]))
         | None \<Rightarrow> Inr gp')
      else Inr gp')"

subsection \<open>main\<close>

text \<open>
  \<open>configure\<close> is \<open>main\<close> up to the call of \<open>check_parameters\<close>: \<open>init_parameters\<close>,
  \<open>read_options\<close>, \<open>setup_target\<close>, \<open>setup_parameters\<close>. \<open>main\<close> then validates and
  calls \<open>training_main\<close>, whose code is in training.c: the model of \<open>main\<close> ends with
  the arguments of that call.
\<close>

datatype outcome =
    Stopped stop
  | Training_main general_parameters target_reader "message list"

definition configure ::
  "externals \<Rightarrow> input \<Rightarrow> stop + general_parameters \<times> target_reader \<times> message list" where
  "configure X I =
     (case read_options X (files I) (max_open I) (getopt_results I)
             (init_parameters X (now I) (pid I) (stack_gp I)) [] of
        Inl e \<Rightarrow> Inl e
      | Inr (gp, err) \<Rightarrow>
          (case setup_target X I gp err of
             Inl e \<Rightarrow> Inl e
           | Inr t_reader \<Rightarrow>
               (case setup_parameters X gp t_reader err of
                  Inl e \<Rightarrow> Inl e
                | Inr gp' \<Rightarrow> Inr (gp', t_reader, err))))"

definition main :: "externals \<Rightarrow> input \<Rightarrow> outcome" where
  "main X I =
     (case configure X I of
        Inl e \<Rightarrow> Stopped e
      | Inr (gp, t_reader, err) \<Rightarrow>
          (case check_parameters gp t_reader of
             Some m \<Rightarrow> Stopped (Exit EXIT_FAILURE (err @ [m]))
           | None \<Rightarrow> Training_main gp t_reader err))"

section \<open>Vocabulary of the statements\<close>

subsection \<open>Validation\<close>

text \<open>
  \<open>out_of_range m gp t_reader\<close>: the field that the message \<open>m\<close> of
  \<open>check_parameters\<close> names is outside its valid range in this configuration.
\<close>

fun out_of_range :: "message \<Rightarrow> general_parameters \<Rightarrow> target_reader \<Rightarrow> bool" where
  "out_of_range Seed_range gp t = (seed (mp gp) \<le> 0)"
| "out_of_range Rho_range gp t = lt_zero (rho (mp gp))"
| "out_of_range Momentum_range gp t = lt_zero (momentum (mp gp))"
| "out_of_range C_state_size_range gp t = (c_state_size (mp gp) \<le> 0)"
| "out_of_range Rep_init_size_range gp t = (rep_init_size (mp gp) \<le> 0)"
| "out_of_range Delay_length_range gp t = (delay_length (mp gp) \<le> 0)"
| "out_of_range Output_type_range gp t = (output_type (mp gp) \<noteq> 0 \<and> output_type (mp gp) \<noteq> 1)"
| "out_of_range Prior_strength_range gp t = lt_zero (prior_strength (mp gp))"
| "out_of_range Rep_init_variance_range gp t = le_zero (rep_init_variance (mp gp))"
| "out_of_range Lambda_range gp t = lt_zero (lambda (mp gp))"
| "out_of_range Alpha_range gp t = lt_zero (alpha (mp gp))"
| "out_of_range Truncate_length_range gp t = (truncate_length (ap gp) < 0)"
| "out_of_range Block_length_range gp t = (block_length (ap gp) < 0)"
| "out_of_range Divide_num_range gp t = (divide_num (ap gp) \<le> 0)"
| "out_of_range Training_data_empty gp t = (num t = 0 \<and> length (load_filename (iop gp)) = 0)"
| "out_of_range m gp t = False"

text \<open>The ranges that the specification lists for a rejected configuration.\<close>

definition listed_violation :: "general_parameters \<Rightarrow> bool" where
  "listed_violation gp \<longleftrightarrow>
     lt_zero (rho (mp gp)) \<or> c_state_size (mp gp) \<le> 0 \<or> lt_zero (momentum (mp gp))
     \<or> delay_length (mp gp) \<le> 0 \<or> lt_zero (prior_strength (mp gp))
     \<or> lt_zero (lambda (mp gp)) \<or> lt_zero (alpha (mp gp)) \<or> truncate_length (ap gp) < 0
     \<or> block_length (ap gp) < 0 \<or> divide_num (ap gp) \<le> 0"

text \<open>The messages of \<open>check_parameters\<close> in the order of its checks.\<close>

definition check_order :: "message list" where
  "check_order =
     [Seed_range, Rho_range, Momentum_range, C_state_size_range, Rep_init_size_range,
      Delay_length_range, Output_type_range, Prior_strength_range, Rep_init_variance_range,
      Lambda_range, Alpha_range, Truncate_length_range, Block_length_range,
      Divide_num_range, Training_data_empty]"

definition with_three_fields ::
  "int \<Rightarrow> int \<Rightarrow> c_double \<Rightarrow> general_parameters \<Rightarrow> general_parameters" where
  "with_three_fields e l p gp =
     gp\<lparr>mp := (mp gp)\<lparr>epoch_size := e\<rparr>,
        ap := (ap gp)\<lparr>lyapunov_spectrum_size := l, threshold_period := p\<rparr>\<rparr>"

definition with_variance :: "c_double \<Rightarrow> general_parameters \<Rightarrow> general_parameters" where
  "with_variance v gp = gp\<lparr>mp := (mp gp)\<lparr>rep_init_variance := v\<rparr>\<rparr>"

definition with_seed :: "ulong \<Rightarrow> general_parameters \<Rightarrow> general_parameters" where
  "with_seed v gp = gp\<lparr>mp := (mp gp)\<lparr>seed := v\<rparr>\<rparr>"

subsection \<open>The setter calls of a run\<close>

text \<open>
  A sequence of calls of field setters, each with its argument, applied in order.
\<close>

fun run_setters ::
  "externals \<Rightarrow> (setter \<times> string option) list \<Rightarrow> general_parameters \<Rightarrow> general_parameters option" where
  "run_setters X [] gp = Some gp"
| "run_setters X ((s, arg) # calls) gp =
     (case call_setter X s arg gp of
        None \<Rightarrow> None
      | Some gp' \<Rightarrow> run_setters X calls gp')"

text \<open>
  The calls of field setters that \<open>read_config_file\<close> makes on a file that it reads to
  the end, nested files included, and those that \<open>read_options\<close> makes on a command
  line that it reads to the end.
\<close>

function config_calls :: "file_system \<Rightarrow> nat \<Rightarrow> string list \<Rightarrow> (setter \<times> string option) list" where
  "config_calls F n [] = []"
| "config_calls F n (str # rest) =
     (case parse_option_and_arg str of
        (None, arg) \<Rightarrow> config_calls F n rest
      | (Some opt, arg) \<Rightarrow>
          if length opt > 0 then
            (case find_option opt opt_info of
               None \<Rightarrow> config_calls F n rest
             | Some (has_arg, h) \<Rightarrow>
                 if has_arg \<and> arg = None then config_calls F n rest
                 else
                   (case h of
                      Config_file_setter \<Rightarrow>
                        (case arg of
                           None \<Rightarrow> []
                         | Some name \<Rightarrow>
                             (case fopen F n name of
                                None \<Rightarrow> []
                              | Some lines \<Rightarrow>
                                  config_calls F (n - 1) lines @ config_calls F n rest))
                    | Field_setter setter \<Rightarrow> (setter, arg) # config_calls F n rest))
          else config_calls F n rest)"
  by pat_completeness auto
termination
  by (relation "measures [\<lambda>(F, n, lines). n, \<lambda>(F, n, lines). length lines]")
     (auto simp: fopen_def split: if_splits)

fun option_calls ::
  "file_system \<Rightarrow> nat \<Rightarrow> (char \<times> string) list \<Rightarrow> (setter \<times> string option) list" where
  "option_calls F n [] = []"
| "option_calls F n ((opt, optarg) # rest) =
     (if opt = CHR ''s'' then (Set_seed, Some optarg) # option_calls F n rest
      else if opt = CHR ''n'' then (Set_c_state_size, Some optarg) # option_calls F n rest
      else if opt = CHR ''r'' then (Set_rep_init_size, Some optarg) # option_calls F n rest
      else if opt = CHR ''t'' then (Set_init_tau, Some optarg) # option_calls F n rest
      else if opt = CHR ''d'' then (Set_delay_length, Some optarg) # option_calls F n rest
      else if opt = CHR ''k'' then (Set_output_type, Some optarg) # option_calls F n rest
      else if opt = CHR ''e'' then (Set_epoch_size, Some optarg) # option_calls F n rest
      else if opt = CHR ''l'' then (Set_print_interval, Some optarg) # option_calls F n rest
      else if opt = CHR ''x'' then (Set_rho, Some optarg) # option_calls F n rest
      else if opt = CHR ''m'' then (Set_momentum, Some optarg) # option_calls F n rest
      else if opt = CHR ''a'' then (Set_use_adaptive_lr, None) # option_calls F n rest
      else if opt = CHR ''p'' then (Set_prior_strength, Some optarg) # option_calls F n rest
      else if opt = CHR ''i'' then (Set_load_file, Some optarg) # option_calls F n rest
      else if opt = CHR ''o'' then (Set_save_file, Some optarg) # option_calls F n rest
      else if opt = CHR ''c'' then
        (case fopen F n optarg of
           None \<Rightarrow> []
         | Some lines \<Rightarrow> config_calls F (n - 1) lines @ option_calls F n rest)
      else if opt = CHR ''V'' then (Set_verbose, None) # option_calls F n rest
      else [])"

definition calls_setter :: "setter \<Rightarrow> (setter \<times> string option) list \<Rightarrow> bool" where
  "calls_setter s calls \<longleftrightarrow> s \<in> fst ` set calls"

text \<open>The seed option is supplied: \<open>set_seed\<close> is among the calls of the run.\<close>

definition seed_supplied :: "input \<Rightarrow> bool" where
  "seed_supplied I \<longleftrightarrow>
     calls_setter Set_seed (option_calls (files I) (max_open I) (getopt_results I))"

text \<open>
  What \<open>read_config_file\<close> does with one line, and the result of a reading with the
  seed replaced unless the reading sets it; both serve the proofs below.
\<close>

datatype line_kind =
    Ignored | Unknown string | Needs_argument string
  | Field setter "string option" | Config "string option"

definition classify :: "string \<Rightarrow> line_kind" where
  "classify str =
     (case parse_option_and_arg str of
        (None, arg) \<Rightarrow> Ignored
      | (Some opt, arg) \<Rightarrow>
          if length opt > 0 then
            (case find_option opt opt_info of
               None \<Rightarrow> Unknown opt
             | Some (has_arg, h) \<Rightarrow>
                 if has_arg \<and> arg = None then Needs_argument opt
                 else (case h of
                         Config_file_setter \<Rightarrow> Config arg
                       | Field_setter setter \<Rightarrow> Field setter arg))
          else Ignored)"

definition reseed ::
  "bool \<Rightarrow> ulong \<Rightarrow> stop + general_parameters \<times> message list
     \<Rightarrow> stop + general_parameters \<times> message list" where
  "reseed keep v r =
     (case r of Inl e \<Rightarrow> Inl e
      | Inr (g, e) \<Rightarrow> Inr (if keep then g else with_seed v g, e))"

subsection \<open>Malformed lines and warnings\<close>




text \<open>The two warnings, and a run's result without them.\<close>

fun is_warning :: "message \<Rightarrow> bool" where
  "is_warning (Requires_argument opt line) = True"
| "is_warning (Unknown_option opt line) = True"
| "is_warning m = False"

definition errors_only :: "message list \<Rightarrow> message list" where
  "errors_only err = filter (\<lambda>m. \<not> is_warning m) err"

fun quiet_stop :: "stop \<Rightarrow> stop" where
  "quiet_stop (Exit status err) = Exit status (errors_only err)"
| "quiet_stop (Null_argument err) = Null_argument (errors_only err)"


text \<open>
  For the proofs: the result of a reading without its warnings, and two lines that
  \<open>read_config_file\<close> treats alike but for a warning.
\<close>

definition quiet_result ::
  "stop + general_parameters \<times> message list \<Rightarrow> stop + general_parameters \<times> message list" where
  "quiet_result r =
     (case r of Inl e \<Rightarrow> Inl (quiet_stop e) | Inr (g, err) \<Rightarrow> Inr (g, errors_only err))"

fun quiet_kind :: "line_kind \<Rightarrow> line_kind" where
  "quiet_kind (Unknown opt) = Ignored"
| "quiet_kind (Needs_argument opt) = Ignored"
| "quiet_kind k = k"

definition line_rel :: "string \<Rightarrow> string \<Rightarrow> bool" where
  "line_rel a b \<longleftrightarrow> quiet_kind (classify a) = quiet_kind (classify b)"

subsection \<open>Observations of an outcome\<close>

definition training_entered :: "outcome \<Rightarrow> bool" where
  "training_entered r = (case r of Stopped e \<Rightarrow> False | Training_main gp t err \<Rightarrow> True)"


definition stop_of :: "outcome \<Rightarrow> stop option" where
  "stop_of r = (case r of Stopped e \<Rightarrow> Some e | Training_main gp t err \<Rightarrow> None)"

definition variance_of :: "outcome \<Rightarrow> c_double option" where
  "variance_of r = (case r of Stopped e \<Rightarrow> None
     | Training_main gp t err \<Rightarrow> Some (rep_init_variance (mp gp)))"

definition seed_of :: "outcome \<Rightarrow> ulong option" where
  "seed_of r = (case r of Stopped e \<Rightarrow> None | Training_main gp t err \<Rightarrow> Some (seed (mp gp)))"

definition data_and_load_file ::
  "stop + general_parameters \<times> target_reader \<times> message list \<Rightarrow> (int \<times> string) option" where
  "data_and_load_file c = (case c of Inl e \<Rightarrow> None
     | Inr (gp, t, err) \<Rightarrow> Some (num t, load_filename (iop gp)))"

section \<open>A sample platform and sample runs\<close>

text \<open>
  The theorems hold for every \<open>externals\<close>. To run the model on concrete inputs, here
  is one instance: conversions that read an optional sign and decimal digits (and, for
  \<open>atof\<close>, the word \<open>nan\<close>, which \<open>strtod\<close> accepts as well), sample values for the
  constants of parameter.h, a target reader that counts one sequence for each non-empty
  stream, and connection parsers that never stop the program.
\<close>

fun digits_value :: "nat \<Rightarrow> string \<Rightarrow> nat" where
  "digits_value acc [] = acc"
| "digits_value acc (c # cs) =
     (if 48 \<le> (of_char c :: nat) \<and> (of_char c :: nat) \<le> 57
      then digits_value (10 * acc + (of_char c - 48)) cs else acc)"

definition decimal :: "string \<Rightarrow> int" where
  "decimal str =
     (case dropWhile (\<lambda>c. c = CHR '' '') str of
        [] \<Rightarrow> 0
      | c # cs \<Rightarrow> if c = CHR ''-'' then - int (digits_value 0 cs)
                  else if c = CHR ''+'' then int (digits_value 0 cs)
                  else int (digits_value 0 (c # cs)))"

definition sample_externals :: externals where
  "sample_externals =
     \<lparr> atoi = decimal, atol = decimal,
       atof = (\<lambda>str. if str = ''nan'' then NaN else Finite (of_int (decimal str))),
       strtoul = (\<lambda>str. word_of_int (decimal str)),
       EPOCH_SIZE = 1000, RHO = Finite (1 / 1000), MOMENTUM = Finite (9 / 10),
       C_STATE_SIZE = 10, REP_INIT_SIZE = 1, DELAY_LENGTH = 1, OUTPUT_TYPE = 0,
       INIT_TAU = ''1.0'', PRIOR_STRENGTH = Finite 0, REP_INIT_VARIANCE = Finite 1,
       LAMBDA = Finite 0, ALPHA = Finite 0, TRUNCATE_LENGTH = 0, BLOCK_LENGTH = 0,
       DIVIDE_NUM = 1, LYAPUNOV_SPECTRUM_SIZE = 0, THRESHOLD_PERIOD = Finite 1,
       STREAM_FILENAME = (\<lambda>s. stream_name s @ ''.log''), SAVE_FILENAME = ''rnn.dat'',
       LOAD_FILENAME = [], PRINT_INTERVAL = 1,
       init_target_reader = \<lparr> num = 0, dimension = 0 \<rparr>,
       read_target_from_file =
         (\<lambda>t lines. if lines = [] then Some t
                     else Some (t\<lparr> num := num t + 1, dimension := 1 \<rparr>)),
       str_to_failure = (\<lambda>strs c d. None) \<rparr>"

definition zero_interval :: print_interval where
  "zero_interval = \<lparr> interval = 0, init = 0, end_epoch = 0, use_logscale_interval = 0,
     set_interval_flag = 0, set_init_flag = 0, set_end_flag = 0,
     set_use_logscale_interval_flag = 0 \<rparr>"

definition zero_gp :: general_parameters where
  "zero_gp =
     \<lparr> mp = \<lparr> seed = 0, epoch_size = 0, use_adaptive_lr = 0, rho = Finite 0,
              momentum = Finite 0, c_state_size = 0, rep_init_size = 0, delay_length = 0,
              output_type = 0, fixed_weight = 0, fixed_threshold = 0, fixed_tau = 0,
              fixed_init_c_state = 0, connection_i2c = [], connection_c2c = [],
              connection_c2o = [], connection_c2v = [], const_init_c = [],
              softmax_group = [], init_tau = [], prior_strength = Finite 0,
              rep_init_variance = Finite 0, lambda = Finite 0, alpha = Finite 0 \<rparr>,
       ap = \<lparr> truncate_length = 0, block_length = 0, divide_num = 0,
              lyapunov_spectrum_size = 0, threshold_period = Finite 0 \<rparr>,
       iop = \<lparr> stream_filename = (\<lambda>s. []), save_filename = [], load_filename = [],
               default_interval = zero_interval, interval_for = (\<lambda>s. zero_interval),
               verbose = 0 \<rparr>,
       inp = \<lparr> adapt_lr = Finite 0, init_epoch = 0 \<rparr> \<rparr>"

definition sample_gp :: general_parameters where
  "sample_gp = init_parameters sample_externals 1700000000 4242 zero_gp"

definition one_sequence :: target_reader where
  "one_sequence = \<lparr> num = 1, dimension = 1 \<rparr>"

definition plain_input :: input where
  "plain_input =
     \<lparr> now = 1700000000, pid = 4242, stack_gp = zero_gp,
       getopt_results = [(CHR ''n'', ''5'')], operands = [''target.txt''],
       files = [''target.txt'' \<mapsto> [''0.1 0.2\<newline>'']],
       max_open = 16, stdin = [] \<rparr>"

definition negative_rate_input :: input where
  "negative_rate_input =
     \<lparr> now = 1700000000, pid = 4242, stack_gp = zero_gp,
       getopt_results = [(CHR ''x'', ''-1'')], operands = [''target.txt''],
       files = [''target.txt'' \<mapsto> [''0.1 0.2\<newline>'']],
       max_open = 16, stdin = [] \<rparr>"

definition output_type_two_input :: input where
  "output_type_two_input =
     \<lparr> now = 1700000000, pid = 4242, stack_gp = zero_gp,
       getopt_results = [(CHR ''k'', ''2'')], operands = [''target.txt''],
       files = [''target.txt'' \<mapsto> [''0.1 0.2\<newline>'']],
       max_open = 16, stdin = [] \<rparr>"

definition no_points_input :: input where
  "no_points_input =
     \<lparr> now = 1700000000, pid = 4242, stack_gp = zero_gp,
       getopt_results = [(CHR ''r'', ''0'')], operands = [''target.txt''],
       files = [''target.txt'' \<mapsto> [''0.1 0.2\<newline>'']],
       max_open = 16, stdin = [] \<rparr>"

definition negative_sizes_input :: input where
  "negative_sizes_input =
     \<lparr> now = 1700000000, pid = 4242, stack_gp = zero_gp,
       getopt_results = [(CHR ''e'', ''-5''), (CHR ''c'', ''rnn.conf'')],
       operands = [''target.txt''],
       files = [''rnn.conf'' \<mapsto> [''lyapunov_spectrum_size=-3\<newline>'',
                                 ''threshold_period = -2\<newline>''],
                ''target.txt'' \<mapsto> [''0.1 0.2\<newline>'']],
       max_open = 16, stdin = [] \<rparr>"

definition nan_variance_input :: input where
  "nan_variance_input =
     \<lparr> now = 1700000000, pid = 4242, stack_gp = zero_gp,
       getopt_results = [(CHR ''c'', ''rnn.conf'')],
       operands = [''target.txt''],
       files = [''rnn.conf'' \<mapsto> [''rep_init_variance=nan\<newline>''],
                ''target.txt'' \<mapsto> [''0.1 0.2\<newline>'']],
       max_open = 16, stdin = [] \<rparr>"

definition no_data_negative_rate_input :: input where
  "no_data_negative_rate_input =
     \<lparr> now = 1700000000, pid = 4242, stack_gp = zero_gp,
       getopt_results = [(CHR ''x'', ''-1'')], operands = [],
       files = Map.empty, max_open = 16, stdin = [] \<rparr>"

definition no_data_input :: input where
  "no_data_input =
     \<lparr> now = 1700000000, pid = 4242, stack_gp = zero_gp,
       getopt_results = [], operands = [],
       files = Map.empty, max_open = 16, stdin = [] \<rparr>"


definition seeded_input :: input where
  "seeded_input =
     \<lparr> now = 1700000000, pid = 4242, stack_gp = zero_gp,
       getopt_results = [(CHR ''s'', ''42'')], operands = [''target.txt''],
       files = [''target.txt'' \<mapsto> [''0.1 0.2\<newline>'']],
       max_open = 16, stdin = [] \<rparr>"

definition sample_calls :: "(setter \<times> string option) list" where
  "sample_calls =
     [(Set_print_interval_for Weight_file, Some ''5''),
      (Set_print_interval, Some ''10''),
      (Set_use_logscale_interval_for Weight_file, None)]"

definition negative_epochs_input :: input where
  "negative_epochs_input =
     \<lparr> now = 1700000000, pid = 4242, stack_gp = zero_gp,
       getopt_results = [(CHR ''e'', ''-5'')], operands = [''target.txt''],
       files = [''target.txt'' \<mapsto> [''0.1 0.2\<newline>'']],
       max_open = 16, stdin = [] \<rparr>"

definition negative_spectrum_input :: input where
  "negative_spectrum_input =
     \<lparr> now = 1700000000, pid = 4242, stack_gp = zero_gp,
       getopt_results = [(CHR ''c'', ''rnn.conf'')], operands = [''target.txt''],
       files = [''rnn.conf'' \<mapsto> [''lyapunov_spectrum_size=-3\<newline>''],
                ''target.txt'' \<mapsto> [''0.1 0.2\<newline>'']],
       max_open = 16, stdin = [] \<rparr>"

definition negative_period_input :: input where
  "negative_period_input =
     \<lparr> now = 1700000000, pid = 4242, stack_gp = zero_gp,
       getopt_results = [(CHR ''c'', ''rnn.conf'')], operands = [''target.txt''],
       files = [''rnn.conf'' \<mapsto> [''threshold_period = -2\<newline>''],
                ''target.txt'' \<mapsto> [''0.1 0.2\<newline>'']],
       max_open = 16, stdin = [] \<rparr>"

definition zero_variance_input :: input where
  "zero_variance_input =
     \<lparr> now = 1700000000, pid = 4242, stack_gp = zero_gp,
       getopt_results = [(CHR ''c'', ''rnn.conf'')], operands = [''target.txt''],
       files = [''rnn.conf'' \<mapsto> [''rep_init_variance=0\<newline>''],
                ''target.txt'' \<mapsto> [''0.1 0.2\<newline>'']],
       max_open = 16, stdin = [] \<rparr>"

section \<open>Validation\<close>

lemma check_parameters_names_offender:
  "check_parameters gp t = Some m \<Longrightarrow> out_of_range m gp t"
  by (auto simp: check_parameters_def split: if_splits)

lemma check_parameters_None_iff:
  "check_parameters gp t = None \<longleftrightarrow>
     \<not> seed (mp gp) \<le> 0 \<and> \<not> lt_zero (rho (mp gp)) \<and> \<not> lt_zero (momentum (mp gp))
     \<and> \<not> c_state_size (mp gp) \<le> 0 \<and> \<not> rep_init_size (mp gp) \<le> 0
     \<and> \<not> delay_length (mp gp) \<le> 0 \<and> (output_type (mp gp) = 0 \<or> output_type (mp gp) = 1)
     \<and> \<not> lt_zero (prior_strength (mp gp)) \<and> \<not> le_zero (rep_init_variance (mp gp))
     \<and> \<not> lt_zero (lambda (mp gp)) \<and> \<not> lt_zero (alpha (mp gp))
     \<and> \<not> truncate_length (ap gp) < 0 \<and> \<not> block_length (ap gp) < 0
     \<and> \<not> divide_num (ap gp) \<le> 0
     \<and> \<not> (num t = 0 \<and> length (load_filename (iop gp)) = 0)"
  by (simp add: check_parameters_def)

lemma rejectedI: "check_parameters gp t \<noteq> None \<Longrightarrow> \<exists>m. check_parameters gp t = Some m"
  by (cases "check_parameters gp t") auto

lemma main_Training_main_iff:
  "main X I = Training_main gp t err \<longleftrightarrow>
     configure X I = Inr (gp, t, err) \<and> check_parameters gp t = None"
  by (auto simp: main_def split: sum.splits option.splits)

lemma main_rejects:
  "configure X I = Inr (gp, t, err) \<Longrightarrow> check_parameters gp t = Some m \<Longrightarrow>
     main X I = Stopped (Exit EXIT_FAILURE (err @ [m]))"
  by (simp add: main_def)

lemma listed_violation_rejected:
  "listed_violation gp \<Longrightarrow> \<exists>m. check_parameters gp t = Some m"
  by (rule rejectedI) (auto simp: listed_violation_def check_parameters_None_iff)

lemma check_parameters_first_failing:
  "check_parameters gp t = find (\<lambda>m. out_of_range m gp t) check_order"
  by (simp add: check_parameters_def check_order_def)

lemma configured_rejection:
  assumes "configure X I = Inr (gp, t, err)" and "check_parameters gp t \<noteq> None"
  shows "\<exists>m. main X I = Stopped (Exit EXIT_FAILURE (err @ [m])) \<and> out_of_range m gp t
           \<and> check_parameters gp t = Some m"
proof -
  obtain m where m: "check_parameters gp t = Some m"
    using assms(2) rejectedI by blast
  have "main X I = Stopped (Exit EXIT_FAILURE (err @ [m]))"
    using m assms(1) by (simp add: main_rejects)
  moreover have "out_of_range m gp t"
    using m by (rule check_parameters_names_offender)
  ultimately show ?thesis
    using m by (intro exI [of _ m]) simp
qed

text \<open>
  C1. Validation is fatal and precedes training. \<open>main\<close> calls \<open>check_parameters\<close> on
  the configuration that \<open>init_parameters\<close>, \<open>read_options\<close> (command line and
  configuration files), \<open>setup_target\<close> (the training data) and \<open>setup_parameters\<close>
  have produced, and calls \<open>training_main\<close> only if the check returns. A configuration
  with a negative learning rate, a non-positive number of context neurons, a negative
  momentum, a non-positive delay, a negative prior strength, \<open>lambda\<close> or \<open>alpha\<close>, a
  negative truncate or block length or a non-positive \<open>divide_num\<close> makes the program
  print a message that names a field which is out of range and exit with
  \<open>EXIT_FAILURE\<close>; \<open>training_main\<close> is entered only with a configuration that
  passed the check.
\<close>

theorem validation_is_fatal:
  "(configure X I = Inr (gp, t, err) \<and> listed_violation gp \<longrightarrow>
      (\<exists>m. main X I = Stopped (Exit EXIT_FAILURE (err @ [m])) \<and> out_of_range m gp t))
   \<and> (main X I = Training_main gp t err \<longrightarrow>
        configure X I = Inr (gp, t, err) \<and> check_parameters gp t = None
        \<and> \<not> listed_violation gp)"
proof (intro conjI impI)
  assume a: "configure X I = Inr (gp, t, err) \<and> listed_violation gp"
  then obtain m where m: "check_parameters gp t = Some m"
    using listed_violation_rejected by blast
  with a have "main X I = Stopped (Exit EXIT_FAILURE (err @ [m]))"
    by (simp add: main_rejects)
  with m show "\<exists>m. main X I = Stopped (Exit EXIT_FAILURE (err @ [m])) \<and> out_of_range m gp t"
    using check_parameters_names_offender by blast
next
  assume b: "main X I = Training_main gp t err"
  then show "configure X I = Inr (gp, t, err)" and c: "check_parameters gp t = None"
    by (simp_all add: main_Training_main_iff)
  show "\<not> listed_violation gp"
    using c listed_violation_rejected [of gp t] by auto
qed

lemma negative_rate_configured: "\<exists>gp t. configure sample_externals negative_rate_input = Inr (gp, t, [])
     \<and> rho (mp gp) = Finite (-1)"
proof -
  have "case configure sample_externals negative_rate_input of Inl e \<Rightarrow> False
        | Inr (gp, t, err) \<Rightarrow> err = [] \<and> rho (mp gp) = Finite (-1)"
    by code_simp
  then show ?thesis
    by (auto split: sum.splits)
qed

lemma plain_run_trains: "\<exists>gp t. main sample_externals plain_input = Training_main gp t []"
proof -
  have "case main sample_externals plain_input of Stopped e \<Rightarrow> False
        | Training_main gp t err \<Rightarrow> err = []"
    by code_simp
  then show ?thesis
    by (auto split: outcome.splits)
qed

theorem validation_is_fatal_witness:
  "(\<exists>gp t. configure sample_externals negative_rate_input = Inr (gp, t, [])
       \<and> listed_violation gp
       \<and> (\<exists>m. main sample_externals negative_rate_input = Stopped (Exit EXIT_FAILURE ([] @ [m]))
             \<and> out_of_range m gp t))
   \<and> (\<exists>gp t. main sample_externals plain_input = Training_main gp t []
         \<and> configure sample_externals plain_input = Inr (gp, t, [])
         \<and> \<not> listed_violation gp)"
proof -
  obtain gp t where c: "configure sample_externals negative_rate_input = Inr (gp, t, [])"
    and r: "rho (mp gp) = Finite (-1)"
    using negative_rate_configured by blast
  have l: "listed_violation gp"
    using r by (simp add: listed_violation_def)
  obtain gp' t' where m: "main sample_externals plain_input = Training_main gp' t' []"
    using plain_run_trains by blast
  show ?thesis
    using validation_is_fatal [of sample_externals negative_rate_input gp t "[]"]
      validation_is_fatal [of sample_externals plain_input gp' t' "[]"] c l m
    by blast
qed

text \<open>
  C5. The output type is 0 (tanh) or 1 (softmax) whenever \<open>training_main\<close> is called;
  with any other value the program prints an error and exits with \<open>EXIT_FAILURE\<close>
  before training.
\<close>

theorem output_type_is_tanh_or_softmax:
  "(main X I = Training_main gp t err \<longrightarrow> output_type (mp gp) = 0 \<or> output_type (mp gp) = 1)
   \<and> (configure X I = Inr (gp, t, err) \<and> output_type (mp gp) \<noteq> 0 \<and> output_type (mp gp) \<noteq> 1 \<longrightarrow>
        (\<exists>m. main X I = Stopped (Exit EXIT_FAILURE (err @ [m])) \<and> out_of_range m gp t))"
proof (intro conjI impI)
  assume "main X I = Training_main gp t err"
  then have "check_parameters gp t = None"
    by (simp add: main_Training_main_iff)
  then show "output_type (mp gp) = 0 \<or> output_type (mp gp) = 1"
    by (simp add: check_parameters_None_iff)
next
  assume a: "configure X I = Inr (gp, t, err) \<and> output_type (mp gp) \<noteq> 0 \<and> output_type (mp gp) \<noteq> 1"
  then have "check_parameters gp t \<noteq> None"
    by (simp add: check_parameters_None_iff)
  then obtain m where m: "check_parameters gp t = Some m"
    using rejectedI by blast
  then show "\<exists>m. main X I = Stopped (Exit EXIT_FAILURE (err @ [m])) \<and> out_of_range m gp t"
    using a main_rejects check_parameters_names_offender by blast
qed

theorem output_type_is_tanh_or_softmax_witness:
  "(\<exists>gp t. main sample_externals plain_input = Training_main gp t []
        \<and> (output_type (mp gp) = 0 \<or> output_type (mp gp) = 1))
   \<and> (\<exists>gp t. configure sample_externals output_type_two_input = Inr (gp, t, [])
        \<and> output_type (mp gp) = 2
        \<and> (\<exists>m. main sample_externals output_type_two_input
                  = Stopped (Exit EXIT_FAILURE ([] @ [m])) \<and> out_of_range m gp t))"
proof -
  have "case main sample_externals plain_input of Stopped e \<Rightarrow> False
        | Training_main gp t err \<Rightarrow> err = []"
    by code_simp
  then obtain gp t where m: "main sample_externals plain_input = Training_main gp t []"
    by (auto split: outcome.splits)
  have "case configure sample_externals output_type_two_input of Inl e \<Rightarrow> False
        | Inr (gp, t, err) \<Rightarrow> err = [] \<and> output_type (mp gp) = 2"
    by code_simp
  then obtain gp' t' where c: "configure sample_externals output_type_two_input = Inr (gp', t', [])"
    and k: "output_type (mp gp') = 2"
    by (auto split: sum.splits)
  show ?thesis
    using output_type_is_tanh_or_softmax [of sample_externals plain_input gp t "[]"]
      output_type_is_tanh_or_softmax [of sample_externals output_type_two_input gp' t' "[]"]
      m c k
    by auto
qed

text \<open>
  The part of C7 that main.c decides. At every call of \<open>training_main\<close> the field
  \<open>rep_init_size\<close> of the configuration is at least 1: \<open>check_parameters\<close> rejects
  every configuration with \<open>rep_init_size <= 0\<close>, and the program then exits with
  \<open>EXIT_FAILURE\<close>. What becomes of the number of representative points after the
  call, and what it is when the model is loaded from the file named by \<open>-i\<close>, is
  decided by training.c, which is not among the sources; the theorem says nothing
  about it.
\<close>

theorem rep_init_size_at_least_one:
  "(main X I = Training_main gp t err \<longrightarrow> 1 \<le> rep_init_size (mp gp))
   \<and> (rep_init_size (mp gp) \<le> 0 \<longrightarrow> (\<exists>m. check_parameters gp t = Some m))
   \<and> (configure X I = Inr (gp, t, err) \<and> rep_init_size (mp gp) \<le> 0 \<longrightarrow>
        (\<exists>m. main X I = Stopped (Exit EXIT_FAILURE (err @ [m])) \<and> out_of_range m gp t))"
proof -
  have r: "rep_init_size (mp gp) \<le> 0 \<Longrightarrow> \<exists>m. check_parameters gp t = Some m"
    by (rule rejectedI) (simp add: check_parameters_None_iff)
  have "main X I = Training_main gp t err \<Longrightarrow> 1 \<le> rep_init_size (mp gp)"
  proof -
    assume "main X I = Training_main gp t err"
    then have "check_parameters gp t = None"
      by (simp add: main_Training_main_iff)
    then show ?thesis
      using r by fastforce
  qed
  moreover have "configure X I = Inr (gp, t, err) \<and> rep_init_size (mp gp) \<le> 0 \<Longrightarrow>
      \<exists>m. main X I = Stopped (Exit EXIT_FAILURE (err @ [m])) \<and> out_of_range m gp t"
    using r main_rejects check_parameters_names_offender by blast
  ultimately show ?thesis
    using r by blast
qed

theorem rep_init_size_at_least_one_witness:
  "(\<exists>gp t. main sample_externals plain_input = Training_main gp t []
        \<and> 1 \<le> rep_init_size (mp gp))
   \<and> (\<exists>gp t. configure sample_externals no_points_input = Inr (gp, t, [])
        \<and> rep_init_size (mp gp) = 0
        \<and> (\<exists>m. check_parameters gp t = Some m)
        \<and> (\<exists>m. main sample_externals no_points_input
                  = Stopped (Exit EXIT_FAILURE ([] @ [m])) \<and> out_of_range m gp t))"
proof -
  have "case main sample_externals plain_input of Stopped e \<Rightarrow> False
        | Training_main gp t err \<Rightarrow> err = []"
    by code_simp
  then obtain gp t where m: "main sample_externals plain_input = Training_main gp t []"
    by (auto split: outcome.splits)
  have "case configure sample_externals no_points_input of Inl e \<Rightarrow> False
        | Inr (gp, t, err) \<Rightarrow> err = [] \<and> rep_init_size (mp gp) = 0"
    by code_simp
  then obtain gp' t' where c: "configure sample_externals no_points_input = Inr (gp', t', [])"
    and k: "rep_init_size (mp gp') = 0"
    by (auto split: sum.splits)
  show ?thesis
    using rep_init_size_at_least_one [of sample_externals plain_input gp t "[]"]
      rep_init_size_at_least_one [of sample_externals no_points_input gp' t' "[]"]
      m c k
    by auto
qed

text \<open>
  C8. \<open>check_parameters\<close> does not look at \<open>epoch_size\<close>, \<open>lyapunov_spectrum_size\<close>
  or \<open>threshold_period\<close>: changing these fields, one or several of them, never changes
  its result, so two configurations that differ in these fields only are both accepted
  or both rejected. In particular a configuration with a negative \<open>epoch_size\<close>, or a
  negative \<open>lyapunov_spectrum_size\<close>, or a negative \<open>threshold_period\<close>, which some
  values of these three fields would make valid, passes the check and reaches
  \<open>training_main\<close>.
\<close>

theorem check_ignores_three_fields:
  "check_parameters (with_three_fields e l p gp) t = check_parameters gp t
   \<and> check_parameters (gp\<lparr>mp := (mp gp)\<lparr>epoch_size := e\<rparr>\<rparr>) t = check_parameters gp t
   \<and> check_parameters (gp\<lparr>ap := (ap gp)\<lparr>lyapunov_spectrum_size := l\<rparr>\<rparr>) t
       = check_parameters gp t
   \<and> check_parameters (gp\<lparr>ap := (ap gp)\<lparr>threshold_period := p\<rparr>\<rparr>) t = check_parameters gp t
   \<and> (configure X I = Inr (gp, t, err)
        \<and> check_parameters (with_three_fields e l p gp) t = None
      \<longrightarrow> main X I = Training_main gp t err)
   \<and> (configure X I = Inr (gp, t, err) \<and> epoch_size (mp gp) < 0
        \<and> check_parameters (with_three_fields e l p gp) t = None
      \<longrightarrow> main X I = Training_main gp t err)
   \<and> (configure X I = Inr (gp, t, err) \<and> lyapunov_spectrum_size (ap gp) < 0
        \<and> check_parameters (with_three_fields e l p gp) t = None
      \<longrightarrow> main X I = Training_main gp t err)
   \<and> (configure X I = Inr (gp, t, err) \<and> lt_zero (threshold_period (ap gp))
        \<and> check_parameters (with_three_fields e l p gp) t = None
      \<longrightarrow> main X I = Training_main gp t err)"
proof -
  have a: "check_parameters (with_three_fields e l p gp) t = check_parameters gp t"
    by (simp add: check_parameters_def with_three_fields_def)
  have b: "check_parameters (gp\<lparr>mp := (mp gp)\<lparr>epoch_size := e\<rparr>\<rparr>) t = check_parameters gp t"
    "check_parameters (gp\<lparr>ap := (ap gp)\<lparr>lyapunov_spectrum_size := l\<rparr>\<rparr>) t
       = check_parameters gp t"
    "check_parameters (gp\<lparr>ap := (ap gp)\<lparr>threshold_period := p\<rparr>\<rparr>) t = check_parameters gp t"
    by (simp_all add: check_parameters_def)
  show ?thesis
    using a b by (simp add: main_Training_main_iff)
qed

lemma one_negative_field_runs:
  "case configure sample_externals negative_epochs_input of Inl e \<Rightarrow> False
   | Inr (gp, t, err) \<Rightarrow> err = [] \<and> epoch_size (mp gp) = -5
       \<and> lyapunov_spectrum_size (ap gp) = 0 \<and> threshold_period (ap gp) = Finite 1
       \<and> check_parameters (with_three_fields 1 1 (Finite 1) gp) t = None"
  "case configure sample_externals negative_spectrum_input of Inl e \<Rightarrow> False
   | Inr (gp, t, err) \<Rightarrow> err = [] \<and> epoch_size (mp gp) = 1000
       \<and> lyapunov_spectrum_size (ap gp) = -3 \<and> threshold_period (ap gp) = Finite 1
       \<and> check_parameters (with_three_fields 1 1 (Finite 1) gp) t = None"
  "case configure sample_externals negative_period_input of Inl e \<Rightarrow> False
   | Inr (gp, t, err) \<Rightarrow> err = [] \<and> epoch_size (mp gp) = 1000
       \<and> lyapunov_spectrum_size (ap gp) = 0 \<and> threshold_period (ap gp) = Finite (-2)
       \<and> check_parameters (with_three_fields 1 1 (Finite 1) gp) t = None"
  "case configure sample_externals negative_sizes_input of Inl e \<Rightarrow> False
   | Inr (gp, t, err) \<Rightarrow> err = [] \<and> epoch_size (mp gp) = -5
       \<and> lyapunov_spectrum_size (ap gp) = -3 \<and> threshold_period (ap gp) = Finite (-2)
       \<and> check_parameters (with_three_fields 1 1 (Finite 1) gp) t = None"
  by code_simp+

theorem check_ignores_three_fields_witness:
  "(\<exists>gp t. configure sample_externals negative_epochs_input = Inr (gp, t, [])
      \<and> epoch_size (mp gp) = -5 \<and> lyapunov_spectrum_size (ap gp) = 0
      \<and> threshold_period (ap gp) = Finite 1
      \<and> main sample_externals negative_epochs_input = Training_main gp t [])
   \<and> (\<exists>gp t. configure sample_externals negative_spectrum_input = Inr (gp, t, [])
      \<and> epoch_size (mp gp) = 1000 \<and> lyapunov_spectrum_size (ap gp) = -3
      \<and> threshold_period (ap gp) = Finite 1
      \<and> main sample_externals negative_spectrum_input = Training_main gp t [])
   \<and> (\<exists>gp t. configure sample_externals negative_period_input = Inr (gp, t, [])
      \<and> epoch_size (mp gp) = 1000 \<and> lyapunov_spectrum_size (ap gp) = 0
      \<and> threshold_period (ap gp) = Finite (-2)
      \<and> main sample_externals negative_period_input = Training_main gp t [])
   \<and> (\<exists>gp t. configure sample_externals negative_sizes_input = Inr (gp, t, [])
      \<and> epoch_size (mp gp) = -5 \<and> lyapunov_spectrum_size (ap gp) = -3
      \<and> threshold_period (ap gp) = Finite (-2)
      \<and> main sample_externals negative_sizes_input = Training_main gp t [])"
proof -
  obtain g1 t1 where c1: "configure sample_externals negative_epochs_input = Inr (g1, t1, [])"
    and v1: "epoch_size (mp g1) = -5" "lyapunov_spectrum_size (ap g1) = 0"
      "threshold_period (ap g1) = Finite 1"
    and k1: "check_parameters (with_three_fields 1 1 (Finite 1) g1) t1 = None"
    using one_negative_field_runs(1) by (auto split: sum.splits)
  obtain g2 t2 where c2: "configure sample_externals negative_spectrum_input = Inr (g2, t2, [])"
    and v2: "epoch_size (mp g2) = 1000" "lyapunov_spectrum_size (ap g2) = -3"
      "threshold_period (ap g2) = Finite 1"
    and k2: "check_parameters (with_three_fields 1 1 (Finite 1) g2) t2 = None"
    using one_negative_field_runs(2) by (auto split: sum.splits)
  obtain g3 t3 where c3: "configure sample_externals negative_period_input = Inr (g3, t3, [])"
    and v3: "epoch_size (mp g3) = 1000" "lyapunov_spectrum_size (ap g3) = 0"
      "threshold_period (ap g3) = Finite (-2)"
    and k3: "check_parameters (with_three_fields 1 1 (Finite 1) g3) t3 = None"
    using one_negative_field_runs(3) by (auto split: sum.splits)
  obtain g4 t4 where c4: "configure sample_externals negative_sizes_input = Inr (g4, t4, [])"
    and v4: "epoch_size (mp g4) = -5" "lyapunov_spectrum_size (ap g4) = -3"
      "threshold_period (ap g4) = Finite (-2)"
    and k4: "check_parameters (with_three_fields 1 1 (Finite 1) g4) t4 = None"
    using one_negative_field_runs(4) by (auto split: sum.splits)
  have m1: "main sample_externals negative_epochs_input = Training_main g1 t1 []"
    using check_ignores_three_fields [where e = 1 and l = 1 and p = "Finite 1" and gp = g1
        and t = t1 and X = sample_externals and I = negative_epochs_input and err = "[]"]
      c1 v1 k1 by simp
  have m2: "main sample_externals negative_spectrum_input = Training_main g2 t2 []"
    using check_ignores_three_fields [where e = 1 and l = 1 and p = "Finite 1" and gp = g2
        and t = t2 and X = sample_externals and I = negative_spectrum_input and err = "[]"]
      c2 v2 k2 by simp
  have m3: "main sample_externals negative_period_input = Training_main g3 t3 []"
    using check_ignores_three_fields [where e = 1 and l = 1 and p = "Finite 1" and gp = g3
        and t = t3 and X = sample_externals and I = negative_period_input and err = "[]"]
      c3 v3 k3 by simp
  have m4: "main sample_externals negative_sizes_input = Training_main g4 t4 []"
    using check_ignores_three_fields [where e = 1 and l = 1 and p = "Finite 1" and gp = g4
        and t = t4 and X = sample_externals and I = negative_sizes_input and err = "[]"]
      c4 v4 k4 by simp
  show ?thesis
    using c1 v1 m1 c2 v2 m2 c3 v3 m3 c4 v4 m4 by blast
qed

text \<open>
  C9, as stated, says that the accepted values of \<open>rep_init_variance\<close> are exactly the
  strictly positive floats. The check is \<open>rep_init_variance <= 0\<close>, which is false for
  a NaN: the configuration file line \<open>rep_init_variance=nan\<close> passes validation and
  reaches training, although NaN is not greater than zero.
\<close>

theorem variance_not_exactly_positive_counterexample:
  "training_entered (main sample_externals nan_variance_input)
   \<and> variance_of (main sample_externals nan_variance_input) = Some NaN
   \<and> \<not> gt_zero NaN"
  by code_simp

text \<open>
  C9, amended. \<open>check_parameters\<close> rejects \<open>rep_init_variance == 0\<close>: whenever
  \<open>rep_init_variance <= 0\<close> holds the program exits with \<open>EXIT_FAILURE\<close>, and in a
  configuration that is valid otherwise the message it prints is the one of the
  variance, whose text gives the valid range as \<open>x >= 0 (float)\<close>. In a configuration
  that is valid otherwise, the accepted values are exactly those for which the
  comparison \<open><= 0\<close> is false: the strictly positive floats, \<open>+\<infinity>\<close> included, and
  NaN.
\<close>

theorem accepted_variances:
  "(check_parameters (with_variance v gp) t = None)
     = (check_parameters (with_variance (Finite 1) gp) t = None \<and> (gt_zero v \<or> v = NaN))
   \<and> (\<exists>m. check_parameters (with_variance (Finite 0) gp) t = Some m)
   \<and> (le_zero (rep_init_variance (mp gp)) \<longrightarrow>
        (\<exists>m. check_parameters gp t = Some m \<and> out_of_range m gp t))
   \<and> (configure X I = Inr (gp, t, err) \<and> le_zero (rep_init_variance (mp gp)) \<longrightarrow>
        (\<exists>m. main X I = Stopped (Exit EXIT_FAILURE (err @ [m])) \<and> out_of_range m gp t))
   \<and> (check_parameters (with_variance (Finite 1) gp) t = None \<and> le_zero v \<longrightarrow>
        check_parameters (with_variance v gp) t = Some Rep_init_variance_range)
   \<and> (configure X I = Inr (gp, t, err) \<and> le_zero (rep_init_variance (mp gp))
        \<and> check_parameters (with_variance (Finite 1) gp) t = None \<longrightarrow>
        main X I = Stopped (Exit EXIT_FAILURE (err @ [Rep_init_variance_range])))
   \<and> message_text Rep_init_variance_range =
       ''variance for representative points of initial state not in valid range: x >= 0 (float)''"
proof -
  have a: "(check_parameters (with_variance v gp) t = None)
     = (check_parameters (with_variance (Finite 1) gp) t = None \<and> (gt_zero v \<or> v = NaN))"
    by (cases v) (auto simp: check_parameters_None_iff with_variance_def)
  have b: "\<exists>m. check_parameters (with_variance (Finite 0) gp) t = Some m"
    by (rule rejectedI) (simp add: check_parameters_None_iff with_variance_def)
  have c: "le_zero (rep_init_variance (mp gp)) \<Longrightarrow>
       \<exists>m. check_parameters gp t = Some m \<and> out_of_range m gp t"
    using rejectedI [of gp t] check_parameters_names_offender [of gp t]
    by (auto simp: check_parameters_None_iff)
  have d: "\<exists>m. main X I = Stopped (Exit EXIT_FAILURE (err @ [m])) \<and> out_of_range m gp t"
    if "configure X I = Inr (gp, t, err) \<and> le_zero (rep_init_variance (mp gp))"
    using that configured_rejection [of X I gp t err]
    by (auto simp: check_parameters_None_iff)
  have e: "check_parameters (with_variance w g) t = Some Rep_init_variance_range"
    if "check_parameters (with_variance (Finite 1) g) t = None \<and> le_zero w" for w g
    using that by (simp add: check_parameters_def with_variance_def split: if_splits)
  have f: "main X I = Stopped (Exit EXIT_FAILURE (err @ [Rep_init_variance_range]))"
    if h: "configure X I = Inr (gp, t, err) \<and> le_zero (rep_init_variance (mp gp))
        \<and> check_parameters (with_variance (Finite 1) gp) t = None"
  proof -
    have "with_variance (rep_init_variance (mp gp)) gp = gp"
      by (simp add: with_variance_def)
    then have "check_parameters gp t = Some Rep_init_variance_range"
      using e [of gp "rep_init_variance (mp gp)"] h by simp
    then show ?thesis
      using h by (simp add: main_rejects)
  qed
  have g: "message_text Rep_init_variance_range =
       ''variance for representative points of initial state not in valid range: x >= 0 (float)''"
    by simp
  show ?thesis
    using a b c d e [of gp v] f g by blast
qed

theorem accepted_variances_witness:
  "le_zero (rep_init_variance (mp (with_variance (Finite 0) sample_gp)))
   \<and> (\<exists>m. check_parameters (with_variance (Finite 0) sample_gp) one_sequence = Some m
         \<and> out_of_range m (with_variance (Finite 0) sample_gp) one_sequence)
   \<and> check_parameters (with_variance (Finite 0) sample_gp) one_sequence
       = Some Rep_init_variance_range
   \<and> check_parameters (with_variance PInf sample_gp) one_sequence = None
   \<and> (\<exists>gp t. configure sample_externals zero_variance_input = Inr (gp, t, [])
         \<and> rep_init_variance (mp gp) = Finite 0
         \<and> main sample_externals zero_variance_input
             = Stopped (Exit EXIT_FAILURE ([] @ [Rep_init_variance_range])))"
proof -
  have l: "le_zero (rep_init_variance (mp (with_variance (Finite 0) sample_gp)))"
    by (simp add: with_variance_def)
  have g: "check_parameters (with_variance (Finite 1) sample_gp) one_sequence = None"
    by code_simp
  have "case configure sample_externals zero_variance_input of Inl e \<Rightarrow> False
        | Inr (gp, t, err) \<Rightarrow> err = [] \<and> rep_init_variance (mp gp) = Finite 0
            \<and> check_parameters (with_variance (Finite 1) gp) t = None"
    by code_simp
  then obtain gp t where c: "configure sample_externals zero_variance_input = Inr (gp, t, [])"
    and z: "rep_init_variance (mp gp) = Finite 0"
    and k: "check_parameters (with_variance (Finite 1) gp) t = None"
    by (auto split: sum.splits)
  have m: "main sample_externals zero_variance_input
             = Stopped (Exit EXIT_FAILURE ([] @ [Rep_init_variance_range]))"
    using accepted_variances [where gp = gp and t = t and X = sample_externals
        and I = zero_variance_input and err = "[]"] c z k
    by simp
  have p: "le_zero (Finite 0)" "gt_zero PInf"
    by simp_all
  have q: "(\<exists>m. check_parameters (with_variance (Finite 0) sample_gp) one_sequence = Some m
         \<and> out_of_range m (with_variance (Finite 0) sample_gp) one_sequence)"
    using accepted_variances [where gp = "with_variance (Finite 0) sample_gp"
        and t = one_sequence] l
    by blast
  have r: "check_parameters (with_variance (Finite 0) sample_gp) one_sequence
       = Some Rep_init_variance_range"
    using accepted_variances [where v = "Finite 0" and gp = sample_gp and t = one_sequence]
      g p(1)
    by blast
  have s: "check_parameters (with_variance PInf sample_gp) one_sequence = None"
    using accepted_variances [where v = PInf and gp = sample_gp and t = one_sequence] g p(2)
    by blast
  show ?thesis
    using l q r s c z m by blast
qed

text \<open>
  C6, as stated, says that with no parsed sequence and no load file the program prints
  \<open>training data is empty.\<close> The emptiness check is the last one of
  \<open>check_parameters\<close>: with \<open>-x -1\<close> and no data the program prints the message of
  the learning rate instead.
\<close>

theorem empty_data_message_counterexample:
  "data_and_load_file (configure sample_externals no_data_negative_rate_input) = Some (0, [])
   \<and> stop_of (main sample_externals no_data_negative_rate_input)
       = Some (Exit EXIT_FAILURE [Rho_range])
   \<and> message_text Rho_range \<noteq> ''training data is empty.''"
  by code_simp

text \<open>
  C6, amended. If no sequence has been parsed and no load file is named, the program
  exits with \<open>EXIT_FAILURE\<close> before \<open>training_main\<close> runs, after printing the message
  of the first check of \<open>check_parameters\<close> that the configuration fails. The
  emptiness check is the last one, so the message is \<open>training data is empty.\<close> if
  and only if the configuration passes every other check.
\<close>

theorem empty_training_set_is_fatal:
  "(configure X I = Inr (gp, t, err) \<and> num t = 0 \<and> length (load_filename (iop gp)) = 0 \<longrightarrow>
      (\<exists>m. main X I = Stopped (Exit EXIT_FAILURE (err @ [m])) \<and> out_of_range m gp t
          \<and> find (\<lambda>m. out_of_range m gp t) check_order = Some m
          \<and> (m = Training_data_empty)
              = (\<forall>m' \<in> set (butlast check_order). \<not> out_of_range m' gp t)
          \<and> (m = Training_data_empty) = (check_parameters gp (t\<lparr>num := 1\<rparr>) = None)))
   \<and> check_parameters gp t = find (\<lambda>m. out_of_range m gp t) check_order
   \<and> last check_order = Training_data_empty
   \<and> Training_data_empty \<notin> set (butlast check_order)
   \<and> message_text Training_data_empty = ''training data is empty.''"
proof -
  have "\<exists>m. main X I = Stopped (Exit EXIT_FAILURE (err @ [m])) \<and> out_of_range m gp t
          \<and> find (\<lambda>m. out_of_range m gp t) check_order = Some m
          \<and> (m = Training_data_empty)
              = (\<forall>m' \<in> set (butlast check_order). \<not> out_of_range m' gp t)
          \<and> (m = Training_data_empty) = (check_parameters gp (t\<lparr>num := 1\<rparr>) = None)"
    if a: "configure X I = Inr (gp, t, err) \<and> num t = 0 \<and> length (load_filename (iop gp)) = 0"
  proof -
    have "check_parameters gp t \<noteq> None"
      using a by (simp add: check_parameters_None_iff)
    then obtain m where m: "check_parameters gp t = Some m"
      using rejectedI by blast
    have q: "(m = Training_data_empty)
        = (\<forall>m' \<in> set (butlast check_order). \<not> out_of_range m' gp t)"
      using m a by (auto simp: check_parameters_def check_order_def split: if_splits)
    have r: "(m = Training_data_empty) = (check_parameters gp (t\<lparr>num := 1\<rparr>) = None)"
      using m a by (auto simp: check_parameters_def split: if_splits)
    have f: "find (\<lambda>m. out_of_range m gp t) check_order = Some m"
      using m by (simp add: check_parameters_first_failing)
    have s: "main X I = Stopped (Exit EXIT_FAILURE (err @ [m]))"
      using m a by (simp add: main_rejects)
    have o: "out_of_range m gp t"
      using m by (rule check_parameters_names_offender)
    show ?thesis
      using q r f s o by (intro exI [of _ m]) simp
  qed
  moreover have "last check_order = Training_data_empty"
    "Training_data_empty \<notin> set (butlast check_order)"
    by (simp_all add: check_order_def)
  ultimately show ?thesis
    using check_parameters_first_failing [of gp t] by simp
qed

theorem empty_training_set_is_fatal_witness:
  "data_and_load_file (configure sample_externals no_data_input) = Some (0, [])
   \<and> main sample_externals no_data_input = Stopped (Exit EXIT_FAILURE [Training_data_empty])"
proof -
  have d: "data_and_load_file (configure sample_externals no_data_input) = Some (0, [])"
    by code_simp
  then obtain gp t err where c: "configure sample_externals no_data_input = Inr (gp, t, err)"
    and n: "num t = 0" "load_filename (iop gp) = []"
    by (auto simp: data_and_load_file_def split: sum.splits)
  have "case configure sample_externals no_data_input of Inl e \<Rightarrow> False
        | Inr (gp, t, err) \<Rightarrow> err = [] \<and> check_parameters gp (t\<lparr>num := 1\<rparr>) = None"
    by code_simp
  then have e: "err = []" and k: "check_parameters gp (t\<lparr>num := 1\<rparr>) = None"
    using c by auto
  show ?thesis
    using empty_training_set_is_fatal [of sample_externals no_data_input gp t err] c n e k d
    by auto
qed

section \<open>Configuration files\<close>

lemma read_config_file_Cons:
  "read_config_file X F n (str # rest) line gp err =
     (case classify str of
        Ignored \<Rightarrow> read_config_file X F n rest (line + 1) gp err
      | Unknown opt \<Rightarrow>
          read_config_file X F n rest (line + 1) gp (err @ [Unknown_option opt (line + 1)])
      | Needs_argument opt \<Rightarrow>
          read_config_file X F n rest (line + 1) gp (err @ [Requires_argument opt (line + 1)])
      | Field setter arg \<Rightarrow>
          (case call_setter X setter arg gp of
             None \<Rightarrow> Inl (Null_argument err)
           | Some gp' \<Rightarrow> read_config_file X F n rest (line + 1) gp' err)
      | Config arg \<Rightarrow>
          (case arg of
             None \<Rightarrow> Inl (Null_argument err)
           | Some name \<Rightarrow>
               (case fopen F n name of
                  None \<Rightarrow> Inl (Exit EXIT_FAILURE (err @ [Cannot_open name]))
                | Some lines \<Rightarrow>
                    (case read_config_file X F (n - 1) lines 0 gp err of
                       Inl e \<Rightarrow> Inl e
                     | Inr (gp', err') \<Rightarrow> read_config_file X F n rest (line + 1) gp' err'))))"
  by (simp add: classify_def split: prod.splits option.splits handler.splits)

lemma config_calls_Cons:
  "config_calls F n (str # rest) =
     (case classify str of
        Ignored \<Rightarrow> config_calls F n rest
      | Unknown opt \<Rightarrow> config_calls F n rest
      | Needs_argument opt \<Rightarrow> config_calls F n rest
      | Field setter arg \<Rightarrow> (setter, arg) # config_calls F n rest
      | Config arg \<Rightarrow>
          (case arg of
             None \<Rightarrow> []
           | Some name \<Rightarrow>
               (case fopen F n name of
                  None \<Rightarrow> []
                | Some lines \<Rightarrow> config_calls F (n - 1) lines @ config_calls F n rest)))"
  by (simp add: classify_def split: prod.splits option.splits handler.splits)

declare read_config_file.simps(2) [simp del]
declare config_calls.simps(2) [simp del]

lemma fopen_Some_positive: "fopen F n name = Some lines \<Longrightarrow> 0 < n"
  by (simp add: fopen_def split: if_splits)

lemma config_induct [case_names Nil Cons]:
  assumes nil: "\<And>n. P n []"
    and cons: "\<And>n str rest. P n rest \<Longrightarrow> (\<And>lines. 0 < n \<Longrightarrow> P (n - 1) lines)
                  \<Longrightarrow> P n (str # rest)"
  shows "P (n :: nat) (lines :: string list)"
proof (induction n arbitrary: lines rule: less_induct)
  case (less n)
  show ?case
  proof (induction lines)
    case Nil
    show ?case by (rule nil)
  next
    case (Cons str rest)
    show ?case
      by (rule cons [OF Cons]) (simp add: less)
  qed
qed

subsection \<open>Malformed lines\<close>

text \<open>A NUL byte ends the line for the parser, whatever follows it.\<close>

lemma nul_byte_ends_line:
  "parse_option_and_arg (''fixed_weight'' @ [CHR 0x00] @ ''x\<newline>'') = (Some ''fixed_weight'', None)"
  "classify (''fixed_weight'' @ [CHR 0x00] @ ''x\<newline>'') = Field Set_fixed_weight None"
  by code_simp+


lemma errors_only_simps [simp]:
  "errors_only [] = []"
  "errors_only (m # err) = (if is_warning m then errors_only err else m # errors_only err)"
  "errors_only (err @ err') = errors_only err @ errors_only err'"
  by (simp_all add: errors_only_def)

lemma quiet_result_simps [simp]:
  "quiet_result (Inl e) = Inl (quiet_stop e)"
  "quiet_result (Inr (g, err)) = Inr (g, errors_only err)"
  by (simp_all add: quiet_result_def)



lemma line_rel_refl [simp]: "line_rel a a"
  by (simp add: line_rel_def)













section \<open>Runs as sequences of setter calls\<close>

lemmas setter_defs =
  set_seed_def set_epoch_size_def set_use_adaptive_lr_def set_rho_def set_momentum_def
  set_c_state_size_def set_rep_init_size_def set_delay_length_def set_output_type_def
  set_fixed_weight_def set_fixed_threshold_def set_fixed_tau_def set_fixed_init_c_state_def
  set_connection_i2c_def set_connection_c2c_def set_connection_c2o_def set_connection_c2v_def
  set_const_init_c_def set_softmax_group_def set_init_tau_def set_prior_strength_def
  set_rep_init_variance_def set_lambda_def set_alpha_def set_truncate_length_def
  set_block_length_def set_divide_num_def set_lyapunov_spectrum_size_def
  set_threshold_period_def set_stream_file_def set_save_file_def set_load_file_def
  set_print_interval_def set_print_init_def set_print_end_def set_use_logscale_interval_def
  set_print_interval_for_def set_print_init_for_def set_print_end_for_def
  set_use_logscale_interval_for_def set_verbose_def
  set_default_value_of_interval_def set_default_value_of_init_def
  set_default_value_of_end_def set_default_value_of_use_logscale_interval_def

lemma calls_setter_simps [simp]:
  "calls_setter s [] = False"
  "calls_setter s ((s', arg) # calls) = (s = s' \<or> calls_setter s calls)"
  "calls_setter s (a @ b) = (calls_setter s a \<or> calls_setter s b)"
  by (auto simp: calls_setter_def)

lemma run_setters_append:
  "run_setters X (a @ b) gp =
     (case run_setters X a gp of None \<Rightarrow> None | Some g \<Rightarrow> run_setters X b g)"
  by (induction a arbitrary: gp) (auto split: option.splits)

lemma read_config_file_runs_setters:
  "read_config_file X F n lines line gp err = Inr (g, err') \<Longrightarrow>
     run_setters X (config_calls F n lines) gp = Some g"
proof (induction n lines arbitrary: line gp err g err' rule: config_induct)
  case (Nil n)
  then show ?case by simp
next
  case (Cons n str rest)
  show ?case
    using Cons.prems Cons.IH(1) Cons.IH(2) [OF fopen_Some_positive]
    by (cases "classify str")
       (auto simp: read_config_file_Cons config_calls_Cons run_setters_append
          split: option.splits sum.splits)
qed

lemma read_options_runs_setters:
  "read_options X F n items gp err = Inr (g, err') \<Longrightarrow>
     run_setters X (option_calls F n items) gp = Some g"
proof (induction items arbitrary: gp err)
  case Nil
  then show ?case by simp
next
  case (Cons item rest)
  obtain opt optarg where item: "item = (opt, optarg)" by (cases item)
  show ?case
  proof (cases "opt = CHR ''c''")
    case True
    show ?thesis
      using Cons.prems Cons.IH item True
      by (auto simp: set_config_file_def run_setters_append
            dest!: read_config_file_runs_setters split: option.splits sum.splits)
  next
    case False
    show ?thesis
      using Cons.prems Cons.IH item False
      by (auto split: if_splits)
  qed
qed

lemma call_setter_flags:
  assumes "call_setter X s arg gp = Some g"
  shows "set_interval_flag (interval_for (iop g) S) =
           (if s = Set_print_interval_for S then 1
            else set_interval_flag (interval_for (iop gp) S))"
    and "set_init_flag (interval_for (iop g) S) =
           (if s = Set_print_init_for S then 1 else set_init_flag (interval_for (iop gp) S))"
    and "set_end_flag (interval_for (iop g) S) =
           (if s = Set_print_end_for S then 1 else set_end_flag (interval_for (iop gp) S))"
    and "set_use_logscale_interval_flag (interval_for (iop g) S) =
           (if s = Set_use_logscale_interval_for S then 1
            else set_use_logscale_interval_flag (interval_for (iop gp) S))"
  using assms by (cases s; cases arg; auto simp: setter_defs)+

lemma run_setters_flags:
  assumes "run_setters X calls gp = Some g"
  shows "set_interval_flag (interval_for (iop g) S) =
           (if calls_setter (Set_print_interval_for S) calls then 1
            else set_interval_flag (interval_for (iop gp) S))"
    and "set_init_flag (interval_for (iop g) S) =
           (if calls_setter (Set_print_init_for S) calls then 1
            else set_init_flag (interval_for (iop gp) S))"
    and "set_end_flag (interval_for (iop g) S) =
           (if calls_setter (Set_print_end_for S) calls then 1
            else set_end_flag (interval_for (iop gp) S))"
    and "set_use_logscale_interval_flag (interval_for (iop g) S) =
           (if calls_setter (Set_use_logscale_interval_for S) calls then 1
            else set_use_logscale_interval_flag (interval_for (iop gp) S))"
  using assms
proof (induction calls arbitrary: gp)
  case Nil
  {
    case 1 then show ?case by simp
  next
    case 2 then show ?case by simp
  next
    case 3 then show ?case by simp
  next
    case 4 then show ?case by simp
  }
next
  case (Cons c calls)
  obtain s arg where c: "c = (s, arg)" by (cases c)
  {
    case 1
    then obtain g1 where g1: "call_setter X s arg gp = Some g1"
      and r: "run_setters X calls g1 = Some g"
      using c by (auto split: option.splits)
    show ?case
      using Cons.IH(1) [OF r] call_setter_flags(1) [OF g1, of S] c by auto
  next
    case 2
    then obtain g1 where g1: "call_setter X s arg gp = Some g1"
      and r: "run_setters X calls g1 = Some g"
      using c by (auto split: option.splits)
    show ?case
      using Cons.IH(2) [OF r] call_setter_flags(2) [OF g1, of S] c by auto
  next
    case 3
    then obtain g1 where g1: "call_setter X s arg gp = Some g1"
      and r: "run_setters X calls g1 = Some g"
      using c by (auto split: option.splits)
    show ?case
      using Cons.IH(3) [OF r] call_setter_flags(3) [OF g1, of S] c by auto
  next
    case 4
    then obtain g1 where g1: "call_setter X s arg gp = Some g1"
      and r: "run_setters X calls g1 = Some g"
      using c by (auto split: option.splits)
    show ?case
      using Cons.IH(4) [OF r] call_setter_flags(4) [OF g1, of S] c by auto
  }
qed

lemma initial_flags:
  "set_interval_flag (interval_for (iop (init_parameters X tm pd g0)) S) = 0"
  "set_init_flag (interval_for (iop (init_parameters X tm pd g0)) S) = 0"
  "set_end_flag (interval_for (iop (init_parameters X tm pd g0)) S) = 0"
  "set_use_logscale_interval_flag (interval_for (iop (init_parameters X tm pd g0)) S) = 0"
  by (simp_all add: init_parameters_def initial_interval_def)

lemma default_setters:
  "interval (interval_for (iop (set_print_interval X w g)) S) =
     (if set_interval_flag (interval_for (iop g) S) = 0 then atol X w
      else interval (interval_for (iop g) S))"
  "init (interval_for (iop (set_print_init X w g)) S) =
     (if set_init_flag (interval_for (iop g) S) = 0 then atol X w
      else init (interval_for (iop g) S))"
  "end_epoch (interval_for (iop (set_print_end X w g)) S) =
     (if set_end_flag (interval_for (iop g) S) = 0 then atol X w
      else end_epoch (interval_for (iop g) S))"
  "use_logscale_interval (interval_for (iop (set_use_logscale_interval g)) S) =
     (if set_use_logscale_interval_flag (interval_for (iop g) S) = 0 then 1
      else use_logscale_interval (interval_for (iop g) S))"
  by (simp_all add: setter_defs)

text \<open>
  C3, as stated, speaks of fourteen output streams with per-stream interval setters. The
  final save file is an output (\<open>save_file\<close> is an option) without an interval policy:
  \<open>opt_info\<close> has no per-stream interval option for it, and the interval streams are
  thirteen.
\<close>

theorem fourteenth_stream_counterexample:
  "length all_streams = 13
   \<and> find_option ''save_file'' opt_info = Some (True, Field_setter Set_save_file)
   \<and> find_option ''print_interval_for_save_file'' opt_info = None
   \<and> find_option ''print_init_for_save_file'' opt_info = None
   \<and> find_option ''print_end_for_save_file'' opt_info = None
   \<and> find_option ''use_logscale_interval_for_save_file'' opt_info = None"
  by code_simp

text \<open>
  C3, amended. The interval policies of the thirteen streams that have one (all of the
  specification's list but the final save) are independently configurable. After any
  sequence of setter calls on the initial configuration, a call of a global default
  setter (\<open>set_print_interval\<close>, \<open>set_print_init\<close>, \<open>set_print_end\<close>,
  \<open>set_use_logscale_interval\<close>) leaves the field of a stream \<open>S\<close> unchanged if the
  per-stream setter of that field has been called for \<open>S\<close>, and gives the field the new
  default value if it has not.
\<close>

theorem interval_policies_are_independent:
  assumes "run_setters X calls (init_parameters X tm pd g0) = Some g"
  shows "(calls_setter (Set_print_interval_for S) calls \<longrightarrow>
            interval (interval_for (iop (set_print_interval X w g)) S)
              = interval (interval_for (iop g) S))
       \<and> (\<not> calls_setter (Set_print_interval_for S) calls \<longrightarrow>
            interval (interval_for (iop (set_print_interval X w g)) S) = atol X w)
       \<and> (calls_setter (Set_print_init_for S) calls \<longrightarrow>
            init (interval_for (iop (set_print_init X w g)) S)
              = init (interval_for (iop g) S))
       \<and> (\<not> calls_setter (Set_print_init_for S) calls \<longrightarrow>
            init (interval_for (iop (set_print_init X w g)) S) = atol X w)
       \<and> (calls_setter (Set_print_end_for S) calls \<longrightarrow>
            end_epoch (interval_for (iop (set_print_end X w g)) S)
              = end_epoch (interval_for (iop g) S))
       \<and> (\<not> calls_setter (Set_print_end_for S) calls \<longrightarrow>
            end_epoch (interval_for (iop (set_print_end X w g)) S) = atol X w)
       \<and> (calls_setter (Set_use_logscale_interval_for S) calls \<longrightarrow>
            use_logscale_interval (interval_for (iop (set_use_logscale_interval g)) S)
              = use_logscale_interval (interval_for (iop g) S))
       \<and> (\<not> calls_setter (Set_use_logscale_interval_for S) calls \<longrightarrow>
            use_logscale_interval (interval_for (iop (set_use_logscale_interval g)) S) = 1)"
  using run_setters_flags [OF assms, of S]
  by (simp add: default_setters initial_flags)

theorem interval_policies_are_independent_witness:
  "\<exists>g. run_setters sample_externals sample_calls sample_gp = Some g
      \<and> interval (interval_for (iop g) Weight_file) = 5
      \<and> interval (interval_for (iop (set_print_interval sample_externals ''20'' g)) Weight_file) = 5
      \<and> interval (interval_for (iop (set_print_interval sample_externals ''20'' g)) Error_file) = 20
      \<and> use_logscale_interval (interval_for (iop (set_use_logscale_interval g)) Error_file) = 1"
proof -
  have "case run_setters sample_externals sample_calls sample_gp of None \<Rightarrow> False
        | Some g \<Rightarrow> interval (interval_for (iop g) Weight_file) = 5"
    by code_simp
  then obtain g where g: "run_setters sample_externals sample_calls
        (init_parameters sample_externals 1700000000 4242 zero_gp) = Some g"
    and i: "interval (interval_for (iop g) Weight_file) = 5"
    by (auto simp: sample_gp_def split: option.splits)
  have c: "calls_setter (Set_print_interval_for Weight_file) sample_calls"
    "\<not> calls_setter (Set_print_interval_for Error_file) sample_calls"
    "\<not> calls_setter (Set_use_logscale_interval_for Error_file) sample_calls"
    by (simp_all add: sample_calls_def)
  have a: "atol sample_externals ''20'' = 20"
    by code_simp
  show ?thesis
    using interval_policies_are_independent [OF g, of Weight_file "''20''"]
      interval_policies_are_independent [OF g, of Error_file "''20''"] g i c a
    by (simp add: sample_gp_def)
qed

section \<open>The seed\<close>

lemma default_seed_bounds:
  "1 \<le> unat (default_seed tm pd) \<and> unat (default_seed tm pd) \<le> 4294967295"
proof -
  let ?r = "(tm * pd) mod 4294967295"
  have r: "unat ?r < 4294967295"
    by (simp add: unat_mod)
  have "unat (?r + 1) = unat ?r + 1"
    using r by (simp add: unat_word_ariths)
  then show ?thesis
    using r by (simp add: default_seed_def)
qed

lemma default_seed_nonzero: "default_seed tm pd \<noteq> 0"
  using default_seed_bounds [of tm pd] by (auto simp: unat_eq_0)

lemma call_setter_with_seed:
  "call_setter X s arg (with_seed v gp) =
     (if s = Set_seed then call_setter X s arg gp
      else map_option (with_seed v) (call_setter X s arg gp))"
  by (cases s; cases arg) (simp_all add: with_seed_def setter_defs)

lemma reseed_simps [simp]:
  "reseed keep v (Inl e) = Inl e"
  "reseed keep v (Inr (g, err)) = Inr (if keep then g else with_seed v g, err)"
  "reseed True v r = r"
  by (auto simp: reseed_def split: sum.splits)

lemma read_config_file_with_seed:
  "read_config_file X F n lines line (with_seed v gp) err =
     reseed (calls_setter Set_seed (config_calls F n lines)) v
       (read_config_file X F n lines line gp err)"
proof (induction n lines arbitrary: line gp err rule: config_induct)
  case (Nil n)
  then show ?case by simp
next
  case (Cons n str rest)
  show ?case
  proof (cases "classify str")
    case Ignored
    then show ?thesis
      by (simp add: read_config_file_Cons config_calls_Cons Cons.IH(1))
  next
    case (Unknown opt)
    then show ?thesis
      by (simp add: read_config_file_Cons config_calls_Cons Cons.IH(1))
  next
    case (Needs_argument opt)
    then show ?thesis
      by (simp add: read_config_file_Cons config_calls_Cons Cons.IH(1))
  next
    case (Field s arg)
    then show ?thesis
      by (cases "call_setter X s arg gp")
         (auto simp: read_config_file_Cons config_calls_Cons Cons.IH(1) call_setter_with_seed)
  next
    case (Config arg)
    show ?thesis
    proof (cases arg)
      case None
      then show ?thesis
        using Config by (simp add: read_config_file_Cons config_calls_Cons)
    next
      case (Some name)
      show ?thesis
      proof (cases "fopen F n name")
        case None
        then show ?thesis
          using Config Some by (simp add: read_config_file_Cons config_calls_Cons)
      next
        case inner: (Some lines)
        have pos: "0 < n"
          using inner by (rule fopen_Some_positive)
        have nested: "read_config_file X F (n - Suc 0) lines 0 (with_seed v gp) err =
            reseed (calls_setter Set_seed (config_calls F (n - Suc 0) lines)) v
              (read_config_file X F (n - Suc 0) lines 0 gp err)"
          using Cons.IH(2) [OF pos, of lines 0 gp err] by simp
        show ?thesis
        proof (cases "read_config_file X F (n - Suc 0) lines 0 gp err")
          case (Inl e)
          then show ?thesis
            using Config Some inner
            by (simp add: read_config_file_Cons config_calls_Cons nested)
        next
          case (Inr r)
          obtain g e where r: "r = (g, e)" by (cases r)
          show ?thesis
            using Config Some inner Inr r
            by (simp add: read_config_file_Cons config_calls_Cons nested Cons.IH(1))
        qed
      qed
    qed
  qed
qed

lemma setters_with_seed:
  "set_seed X a (with_seed v gp) = set_seed X a gp"
  "set_c_state_size X a (with_seed v gp) = with_seed v (set_c_state_size X a gp)"
  "set_rep_init_size X a (with_seed v gp) = with_seed v (set_rep_init_size X a gp)"
  "set_init_tau a (with_seed v gp) = with_seed v (set_init_tau a gp)"
  "set_delay_length X a (with_seed v gp) = with_seed v (set_delay_length X a gp)"
  "set_output_type X a (with_seed v gp) = with_seed v (set_output_type X a gp)"
  "set_epoch_size X a (with_seed v gp) = with_seed v (set_epoch_size X a gp)"
  "set_print_interval X a (with_seed v gp) = with_seed v (set_print_interval X a gp)"
  "set_rho X a (with_seed v gp) = with_seed v (set_rho X a gp)"
  "set_momentum X a (with_seed v gp) = with_seed v (set_momentum X a gp)"
  "set_use_adaptive_lr (with_seed v gp) = with_seed v (set_use_adaptive_lr gp)"
  "set_prior_strength X a (with_seed v gp) = with_seed v (set_prior_strength X a gp)"
  "set_load_file a (with_seed v gp) = with_seed v (set_load_file a gp)"
  "set_save_file a (with_seed v gp) = with_seed v (set_save_file a gp)"
  "set_verbose (with_seed v gp) = with_seed v (set_verbose gp)"
  by (simp_all add: with_seed_def setter_defs)

lemma read_options_with_seed:
  "read_options X F n items (with_seed v gp) err =
     reseed (calls_setter Set_seed (option_calls F n items)) v
       (read_options X F n items gp err)"
proof (induction items arbitrary: gp err)
  case Nil
  then show ?case by simp
next
  case (Cons item rest)
  obtain opt optarg where item: "item = (opt, optarg)" by (cases item)
  show ?case
  proof (cases "opt = CHR ''c''")
    case True
    show ?thesis
    proof (cases "fopen F n optarg")
      case None
      then show ?thesis
        using item True by (simp add: set_config_file_def)
    next
      case (Some lines)
      show ?thesis
      proof (cases "read_config_file X F (n - 1) lines 0 gp err")
        case (Inl e)
        then show ?thesis
          using item True Some
          by (simp add: set_config_file_def read_config_file_with_seed)
      next
        case (Inr r)
        obtain g e where r: "r = (g, e)" by (cases r)
        show ?thesis
          using item True Some Inr r
          by (simp add: set_config_file_def read_config_file_with_seed Cons.IH)
      qed
    qed
  next
    case False
    show ?thesis
      using item False
      by (auto simp: setters_with_seed Cons.IH)
  qed
qed

lemma init_parameters_with_seed:
  "init_parameters X tm pd g0 = with_seed (default_seed tm pd) (init_parameters X tm' pd' g0)"
  by (simp add: init_parameters_def with_seed_def)

lemma read_target_files_clock [simp]:
  "read_target_files X (I\<lparr>now := tm, pid := pd\<rparr>) names t err = read_target_files X I names t err"
  by (induction names arbitrary: t) (auto split: option.splits)

lemma setup_target_clock [simp]:
  "setup_target X (I\<lparr>now := tm, pid := pd\<rparr>) gp err = setup_target X I gp err"
  by (simp add: setup_target_def)

lemma setup_target_with_seed [simp]:
  "setup_target X I (with_seed v gp) err = setup_target X I gp err"
  by (simp add: setup_target_def with_seed_def)

lemma setup_parameters_with_seed [simp]:
  "setup_parameters X (with_seed v gp) t err = map_sum id (with_seed v) (setup_parameters X gp t err)"
  by (simp add: setup_parameters_def with_seed_def Let_def split: option.splits)

lemma check_parameters_with_seed:
  "v \<noteq> 0 \<Longrightarrow> seed (mp gp) \<noteq> 0 \<Longrightarrow> check_parameters (with_seed v gp) t = check_parameters gp t"
  by (simp add: check_parameters_def with_seed_def)

lemma with_seed_same [simp]: "seed (mp gp) = v \<Longrightarrow> with_seed v gp = gp"
  by (simp add: with_seed_def)

lemma seed_with_seed [simp]: "seed (mp (with_seed v gp)) = v"
  by (simp add: with_seed_def)

lemma configure_with_clock:
  "configure X (I\<lparr>now := tm, pid := pd\<rparr>) =
     map_sum id (\<lambda>(gp, t, err). (if seed_supplied I then gp
                                   else with_seed (default_seed tm pd) gp, t, err))
       (configure X I)"
proof -
  let ?g0 = "init_parameters X (now I) (pid I) (stack_gp I)"
  let ?d = "default_seed tm pd"
  have i: "init_parameters X tm pd (stack_gp I) = with_seed ?d ?g0"
    by (rule init_parameters_with_seed)
  show ?thesis
  proof (cases "read_options X (files I) (max_open I) (getopt_results I) ?g0 []")
    case (Inl e)
    then show ?thesis
      by (simp add: configure_def i read_options_with_seed)
  next
    case (Inr r)
    obtain g err where r: "r = (g, err)" by (cases r)
    show ?thesis
    proof (cases "setup_target X I g err")
      case (Inl e)
      then show ?thesis
        using Inr r by (simp add: configure_def i read_options_with_seed seed_supplied_def)
    next
      case t: (Inr t)
      show ?thesis
        using Inr r t
        by (cases "setup_parameters X g t err")
           (simp_all add: configure_def i read_options_with_seed seed_supplied_def)
    qed
  qed
qed

lemma configure_default_seed:
  assumes "configure X I = Inr (gp, t, err)" and "\<not> seed_supplied I"
  shows "seed (mp gp) = default_seed (now I) (pid I)"
proof -
  have "I\<lparr>now := now I, pid := pid I\<rparr> = I"
    by simp
  then have "configure X I = map_sum id (\<lambda>(gp, t, err).
      (with_seed (default_seed (now I) (pid I)) gp, t, err)) (configure X I)"
    using configure_with_clock [where X = X and I = I and tm = "now I" and pd = "pid I"] assms(2) by simp
  then have "gp = with_seed (default_seed (now I) (pid I)) gp"
    using assms(1) by simp
  then show ?thesis
    using seed_with_seed by metis
qed

text \<open>
  C10. Without a seed option the seed is
  \<open>((unsigned long)(time(NULL) * getpid()) mod 4294967295) + 1\<close>, which lies between 1
  and 4294967295 whatever the product is. \<open>init_parameters\<close> stores it, a run without
  a seed option validates it unchanged, and \<open>check_parameters\<close> does not reject it as
  a seed out of range.
\<close>

theorem default_seed_in_range:
  "1 \<le> unat (default_seed tm pd) \<and> unat (default_seed tm pd) \<le> 4294967295
   \<and> seed (mp (init_parameters X tm pd g0)) = default_seed tm pd
   \<and> check_parameters (with_seed (default_seed tm pd) gp) t \<noteq> Some Seed_range
   \<and> (configure X I = Inr (gp, t, err) \<and> \<not> seed_supplied I \<longrightarrow>
        seed (mp gp) = default_seed (now I) (pid I)
        \<and> check_parameters gp t \<noteq> Some Seed_range)"
proof -
  have a: "check_parameters (with_seed (default_seed tm' pd') g) t \<noteq> Some Seed_range"
    for tm' pd' g
    using default_seed_nonzero [of tm' pd'] by (simp add: check_parameters_def with_seed_def)
  have b: "seed (mp gp) = default_seed (now I) (pid I)
        \<and> check_parameters gp t \<noteq> Some Seed_range"
    if c: "configure X I = Inr (gp, t, err) \<and> \<not> seed_supplied I"
  proof -
    have s: "seed (mp gp) = default_seed (now I) (pid I)"
      using c configure_default_seed by blast
    then have "with_seed (default_seed (now I) (pid I)) gp = gp"
      by simp
    then show ?thesis
      using s a [of "now I" "pid I" gp] by simp
  qed
  show ?thesis
    using default_seed_bounds [of tm pd] a [of tm pd gp] b
    by (simp add: init_parameters_def)
qed

theorem default_seed_in_range_witness:
  "\<exists>gp t. configure sample_externals plain_input = Inr (gp, t, [])
      \<and> \<not> seed_supplied plain_input
      \<and> seed (mp gp) = 149911696
      \<and> check_parameters gp t \<noteq> Some Seed_range"
proof -
  obtain gp t where m: "main sample_externals plain_input = Training_main gp t []"
    using plain_run_trains by blast
  then have c: "configure sample_externals plain_input = Inr (gp, t, [])"
    by (simp add: main_Training_main_iff)
  have s: "\<not> seed_supplied plain_input"
    by code_simp
  have d: "default_seed (now plain_input) (pid plain_input) = 149911696"
    by (simp add: plain_input_def default_seed_def)
  show ?thesis
    using default_seed_in_range [where X = sample_externals and I = plain_input
        and gp = gp and t = t and err = "[]"] c s d
    by auto
qed

text \<open>
  C4. The configuration is determined by the command line and the configuration files
  once the seed option is supplied. Two runs that differ in clock and process id only
  end in the same way: they stop with the same status and messages, or they call
  \<open>training_main\<close> with the same target data and with configuration records that are
  identical if \<open>set_seed\<close> has been called (by \<open>-s\<close> or by a \<open>seed=\<close> line), and
  that differ at most in the seed, which is then the default seed of each run,
  otherwise. The same holds for \<open>read_options\<close> after \<open>init_parameters\<close>.
\<close>

theorem seeded_configuration_is_deterministic:
  "main X (I\<lparr>now := tm, pid := pd\<rparr>) =
     (case main X I of
        Stopped e \<Rightarrow> Stopped e
      | Training_main gp t err \<Rightarrow>
          Training_main (if seed_supplied I then gp else with_seed (default_seed tm pd) gp) t err)
   \<and> read_options X F n items (init_parameters X tm pd g0) err =
       reseed (calls_setter Set_seed (option_calls F n items)) (default_seed tm pd)
         (read_options X F n items (init_parameters X tm' pd' g0) err)"
proof
  show "main X (I\<lparr>now := tm, pid := pd\<rparr>) =
     (case main X I of
        Stopped e \<Rightarrow> Stopped e
      | Training_main gp t err \<Rightarrow>
          Training_main (if seed_supplied I then gp else with_seed (default_seed tm pd) gp) t err)"
  proof (cases "configure X I")
    case (Inl e)
    then show ?thesis
      by (simp add: main_def configure_with_clock)
  next
    case (Inr r)
    obtain gp t err where r: "r = (gp, t, err)" by (cases r)
    show ?thesis
    proof (cases "seed_supplied I")
      case True
      then show ?thesis
        using Inr r by (simp add: main_def configure_with_clock split: option.splits)
    next
      case False
      have "seed (mp gp) \<noteq> 0"
        using configure_default_seed [of X I gp t err] Inr r False default_seed_nonzero by simp
      then have "check_parameters (with_seed (default_seed tm pd) gp) t = check_parameters gp t"
        using default_seed_nonzero by (simp add: check_parameters_with_seed)
      then show ?thesis
        using Inr r False by (simp add: main_def configure_with_clock split: option.splits)
    qed
  qed
next
  show "read_options X F n items (init_parameters X tm pd g0) err =
       reseed (calls_setter Set_seed (option_calls F n items)) (default_seed tm pd)
         (read_options X F n items (init_parameters X tm' pd' g0) err)"
    using read_options_with_seed
        [of X F n items "default_seed tm pd" "init_parameters X tm' pd' g0" err]
      init_parameters_with_seed [of X tm pd g0 tm' pd']
    by simp
qed

theorem seeded_configuration_is_deterministic_witness:
  "seed_supplied seeded_input
   \<and> training_entered (main sample_externals seeded_input)
   \<and> main sample_externals (seeded_input\<lparr>now := 1, pid := 1\<rparr>)
       = main sample_externals seeded_input
   \<and> \<not> seed_supplied plain_input
   \<and> seed_of (main sample_externals (plain_input\<lparr>now := 1, pid := 1\<rparr>)) = Some 2"
proof -
  have s: "seed_supplied seeded_input" "\<not> seed_supplied plain_input"
    by code_simp+
  have t: "training_entered (main sample_externals seeded_input)"
    by code_simp
  then obtain gp1 t1 err1 where
    q: "main sample_externals seeded_input = Training_main gp1 t1 err1"
    by (auto simp: training_entered_def split: outcome.splits)
  obtain gp t' where p: "main sample_externals plain_input = Training_main gp t' []"
    using plain_run_trains by blast
  have d: "default_seed 1 1 = 2"
    by (simp add: default_seed_def)
  show ?thesis
    using seeded_configuration_is_deterministic
        [where X = sample_externals and I = seeded_input and tm = 1 and pd = 1]
      seeded_configuration_is_deterministic
        [where X = sample_externals and I = plain_input and tm = 1 and pd = 1]
      s t p q d
    by (simp add: seed_of_def)
qed

end
